theory Spec2Isabelle
  imports Complex_Main "HOL-Library.AList" "HOL-Library.Sublist"
begin

section \<open>Python values\<close>

text \<open>
  The tool is one Python script, \<^verbatim>\<open>ip-geo-tool.py\<close>. Its records are the dictionaries
  that \<^verbatim>\<open>json.loads\<close> returns, so a value is a JSON value; a dictionary is an
  association list, which keeps Python's insertion order. A float is the rational it
  denotes. The exceptions are the subclasses of \<^verbatim>\<open>Exception\<close> that the script can meet.
  A string is a list of characters, one per code point, as \<^verbatim>\<open>len\<close> counts them.
\<close>

datatype pyerr =
  KeyError | IndexError | TypeError | AttributeError | ValueError | URLError | OSError

datatype json =
  JNull | JBool bool | JInt int | JFloat rat | JStr string
| JArr "json list" | JObj "(string \<times> json) list"

type_synonym dict = "(string \<times> json) list"

text \<open>Truth value testing: \<^verbatim>\<open>if v:\<close>.\<close>

fun truthy :: "json \<Rightarrow> bool" where
  "truthy JNull = False"
| "truthy (JBool b) = b"
| "truthy (JInt i) = (i \<noteq> 0)"
| "truthy (JFloat r) = (r \<noteq> 0)"
| "truthy (JStr s) = (s \<noteq> [])"
| "truthy (JArr xs) = (xs \<noteq> [])"
| "truthy (JObj kvs) = (kvs \<noteq> [])"

text \<open>\<^verbatim>\<open>k in d\<close>, \<^verbatim>\<open>d.get(k)\<close>, \<^verbatim>\<open>d.get(k, default)\<close>, \<^verbatim>\<open>d[k]\<close> and \<^verbatim>\<open>d[k] = v\<close>
  (the last one is \<^const>\<open>AList.update\<close>: an existing key keeps its place, a new one goes last).\<close>

definition has_key :: "dict \<Rightarrow> string \<Rightarrow> bool" where
  "has_key d k = (case map_of d k of None \<Rightarrow> False | Some v \<Rightarrow> True)"

definition get_default :: "dict \<Rightarrow> string \<Rightarrow> json \<Rightarrow> json" where
  "get_default d k dflt = (case map_of d k of None \<Rightarrow> dflt | Some v \<Rightarrow> v)"

definition get :: "dict \<Rightarrow> string \<Rightarrow> json" where
  "get d k = get_default d k JNull"

definition subscript :: "dict \<Rightarrow> string \<Rightarrow> pyerr + json" where
  "subscript d k = (case map_of d k of None \<Rightarrow> Inl KeyError | Some v \<Rightarrow> Inr v)"

section \<open>Decimal numerals\<close>

definition digit_char :: "int \<Rightarrow> char" where
  "digit_char n = char_of (48 + n)"

text \<open>The decimal digits of a number that is not negative.\<close>

function show_digits :: "int \<Rightarrow> string" where
  "show_digits n =
     (if n < 10 then [digit_char n] else show_digits (n div 10) @ [digit_char (n mod 10)])"
  by pat_completeness auto
termination
  by (relation "measure nat") auto

declare show_digits.simps [simp del]

definition show_int :: "int \<Rightarrow> string" where
  "show_int i = (if i < 0 then CHR ''-'' # show_digits (- i) else show_digits i)"

section \<open>The IP validator\<close>

text \<open>
  \<^verbatim>\<open>validate_ip\<close> calls \<^verbatim>\<open>socket.inet_aton\<close> and reports whether it raised
  \<^verbatim>\<open>socket.error\<close> (which is \<^verbatim>\<open>OSError\<close>). \<^verbatim>\<open>socket.inet_aton\<close> is the C library's
  \<^verbatim>\<open>inet_aton\<close>; the model follows the GNU C library: each part is read by
  \<^verbatim>\<open>strtoul\<close> with base 0 (decimal, octal after a leading 0, hexadecimal after 0x),
  there are one to four parts, the parts before the last are bytes, the last part fills
  the remaining bytes, and after the last part the string ends or white space follows.
\<close>

definition is_digit :: "char \<Rightarrow> bool" where
  "is_digit c = (48 \<le> (of_char c :: int) \<and> (of_char c :: int) \<le> 57)"

definition is_space :: "char \<Rightarrow> bool" where
  "is_space c = ((of_char c :: int) = 32 \<or> (9 \<le> (of_char c :: int) \<and> (of_char c :: int) \<le> 13))"

definition digit_of :: "int \<Rightarrow> char \<Rightarrow> int option" where
  "digit_of base c =
     (let n = (of_char c :: int);
          v = (if 48 \<le> n \<and> n \<le> 57 then Some (n - 48)
               else if 97 \<le> n \<and> n \<le> 122 then Some (n - 87)
               else if 65 \<le> n \<and> n \<le> 90 then Some (n - 55)
               else None)
      in case v of None \<Rightarrow> None | Some d \<Rightarrow> if d < base then Some d else None)"

fun digits_from :: "int \<Rightarrow> int \<Rightarrow> string \<Rightarrow> int \<times> string" where
  "digits_from base acc [] = (acc, [])"
| "digits_from base acc (c # cs) =
     (case digit_of base c of
        Some d \<Rightarrow> digits_from base (acc * base + d) cs
      | None \<Rightarrow> (acc, c # cs))"

text \<open>\<^verbatim>\<open>strtoul(cp, &endp, 0)\<close> on a string that starts with a digit: the value and the
  rest. A value that does not fit is rejected by the caller's range check, so the value is
  not truncated here.\<close>

definition strtoul :: "string \<Rightarrow> int \<times> string" where
  "strtoul s =
     (case s of
        c # x # rest \<Rightarrow>
          if c = CHR ''0'' \<and> (x = CHR ''x'' \<or> x = CHR ''X'') then
            (case rest of
               [] \<Rightarrow> (0, x # rest)
             | h # _ \<Rightarrow> if digit_of 16 h = None then (0, x # rest) else digits_from 16 0 rest)
          else if c = CHR ''0'' then digits_from 8 0 s
          else digits_from 10 0 s
      | _ \<Rightarrow> if s = ''0'' then digits_from 8 0 s else digits_from 10 0 s)"

definition part_max :: "nat \<Rightarrow> int" where
  "part_max n = (if n = 0 then 0xffffffff else if n = 1 then 0xffffff
                 else if n = 2 then 0xffff else 0xff)"

definition trailing_ok :: "string \<Rightarrow> bool" where
  "trailing_ok s = (case s of [] \<Rightarrow> True | c # _ \<Rightarrow> (of_char c :: int) < 128 \<and> is_space c)"

text \<open>The loop of \<^verbatim>\<open>inet_aton\<close>; \<open>parts\<close> are the bytes stored so far. The result is
  the address as a number, or \<open>None\<close> where the C function returns 0.\<close>

function inet_aton_loop :: "int list \<Rightarrow> string \<Rightarrow> int option" where
  "inet_aton_loop parts s =
     (case s of
        [] \<Rightarrow> None
      | c # _ \<Rightarrow>
          if \<not> is_digit c then None
          else if fst (strtoul s) > 0xffffffff then None
          else if snd (strtoul s) \<noteq> [] \<and> hd (snd (strtoul s)) = CHR ''.'' then
            (if length parts > 2 \<or> fst (strtoul s) > 0xff then None
             else inet_aton_loop (parts @ [fst (strtoul s)]) (tl (snd (strtoul s))))
          else if \<not> trailing_ok (snd (strtoul s)) then None
          else if fst (strtoul s) > part_max (length parts) then None
          else Some (foldl (\<lambda>a p. a * 256 + p) 0 parts * 256 ^ (4 - length parts)
                     + fst (strtoul s)))"
  by pat_completeness auto
termination
  by (relation "measure (\<lambda>(parts, s). 3 - length parts)") auto

declare inet_aton_loop.simps [simp del]

definition inet_aton :: "string \<Rightarrow> int option" where
  "inet_aton s = inet_aton_loop [] s"

text \<open>\<^verbatim>\<open>socket.inet_aton\<close>: the argument is passed as a C string, so a NUL character in
  it raises \<^verbatim>\<open>ValueError\<close>; a string that \<^verbatim>\<open>inet_aton\<close> rejects raises \<^verbatim>\<open>OSError\<close>.\<close>

definition socket_inet_aton :: "string \<Rightarrow> pyerr + int" where
  "socket_inet_aton ip =
     (if CHR 0x00 \<in> set ip then Inl ValueError
      else case inet_aton ip of None \<Rightarrow> Inl OSError | Some a \<Rightarrow> Inr a)"

definition validate_ip :: "string \<Rightarrow> pyerr + bool" where
  "validate_ip ip =
     (case socket_inet_aton ip of
        Inr a \<Rightarrow> Inr True
      | Inl e \<Rightarrow> if e = OSError then Inr False else Inl e)"

text \<open>The validator the specification describes: four decimal octets from 0 to 255,
  written without leading zeros, separated by exactly three dots, and nothing else.\<close>

fun split_on :: "char \<Rightarrow> string \<Rightarrow> string list" where
  "split_on sep [] = [[]]"
| "split_on sep (c # cs) =
     (if c = sep then [] # split_on sep cs
      else case split_on sep cs of [] \<Rightarrow> [[c]] | p # ps \<Rightarrow> (c # p) # ps)"

fun join_with :: "string \<Rightarrow> string list \<Rightarrow> string" where
  "join_with sep [] = []"
| "join_with sep [p] = p"
| "join_with sep (p # q # ps) = p @ sep @ join_with sep (q # ps)"

definition dec_value :: "string \<Rightarrow> int" where
  "dec_value s = foldl (\<lambda>a c. a * 10 + (of_char c - 48)) 0 s"

definition decimal_octet :: "string \<Rightarrow> bool" where
  "decimal_octet s =
     (s \<noteq> [] \<and> list_all is_digit s \<and> (length s = 1 \<or> hd s \<noteq> CHR ''0'') \<and> dec_value s \<le> 255)"

definition spec_valid_ipv4 :: "string \<Rightarrow> bool" where
  "spec_valid_ipv4 s =
     (length (split_on CHR ''.'' s) = 4 \<and> list_all decimal_octet (split_on CHR ''.'' s))"

section \<open>The surroundings of the script\<close>

text \<open>
  What the script takes from the interpreter's library and from the outside world is a
  parameter of the model:
  \<^item> \<open>simple\<close>: whether \<^verbatim>\<open>main\<close> has blanked every attribute of \<^verbatim>\<open>Colors\<close>;
  \<^item> \<open>terminal_columns\<close>: \<^verbatim>\<open>os.get_terminal_size().columns\<close>, which raises \<^verbatim>\<open>OSError\<close>
    without a terminal;
  \<^item> \<open>now\<close>: \<^verbatim>\<open>datetime.now().strftime("%Y-%m-%d %H:%M:%S")\<close>;
  \<^item> \<open>fill\<close>: \<^verbatim>\<open>textwrap.fill(text, width)\<close> on a string;
  \<^item> \<open>repr\<close>: the text of a float, a list or a dictionary in an f-string;
  \<^item> \<open>float_commas\<close>: a float under the format \<^verbatim>\<open>:,\<close>;
  \<^item> \<open>http_text\<close>: \<^verbatim>\<open>urlopen(url)\<close>, \<^verbatim>\<open>read\<close> and \<^verbatim>\<open>decode\<close>: the body, or the
    exception that one of them raises;
  \<^item> \<open>http_json\<close>: the same followed by \<^verbatim>\<open>json.loads\<close>.
\<close>

record env =
  simple :: bool
  terminal_columns :: "pyerr + int"
  now :: string
  fill :: "string \<Rightarrow> int \<Rightarrow> pyerr + string"
  repr :: "json \<Rightarrow> string"
  float_commas :: "rat \<Rightarrow> string"
  http_text :: "string \<Rightarrow> pyerr + string"
  http_json :: "string \<Rightarrow> pyerr + json"

section \<open>Formatting\<close>

text \<open>A value inside an f-string, \<^verbatim>\<open>f"{v}"\<close>.\<close>

definition py_str :: "env \<Rightarrow> json \<Rightarrow> string" where
  "py_str env v =
     (case v of
        JStr s \<Rightarrow> s
      | JInt i \<Rightarrow> show_int i
      | JBool b \<Rightarrow> (if b then ''True'' else ''False'')
      | JNull \<Rightarrow> ''None''
      | _ \<Rightarrow> repr env v)"

text \<open>Thousands separators: \<open>ins_commas\<close> works on the digits in reverse.\<close>

fun ins_commas :: "string \<Rightarrow> string" where
  "ins_commas (a # b # c # d # rest) = a # b # c # CHR '','' # ins_commas (d # rest)"
| "ins_commas s = s"

definition int_commas :: "int \<Rightarrow> string" where
  "int_commas i =
     (if i < 0 then CHR ''-'' # rev (ins_commas (rev (show_digits (- i))))
      else rev (ins_commas (rev (show_digits i))))"

text \<open>\<^verbatim>\<open>f"{v:,}"\<close>: a string raises \<^verbatim>\<open>ValueError\<close>; \<^verbatim>\<open>None\<close>, a list and a dictionary
  raise \<^verbatim>\<open>TypeError\<close>; a boolean is the integer 0 or 1.\<close>

definition format_commas :: "env \<Rightarrow> json \<Rightarrow> pyerr + string" where
  "format_commas env v =
     (case v of
        JInt i \<Rightarrow> Inr (int_commas i)
      | JBool b \<Rightarrow> Inr (if b then ''1'' else ''0'')
      | JFloat r \<Rightarrow> Inr (float_commas env r)
      | JStr s \<Rightarrow> Inl ValueError
      | _ \<Rightarrow> Inl TypeError)"

text \<open>\<^verbatim>\<open>len(v)\<close>.\<close>

definition py_len :: "json \<Rightarrow> pyerr + int" where
  "py_len v =
     (case v of
        JStr s \<Rightarrow> Inr (int (length s))
      | JArr xs \<Rightarrow> Inr (int (length xs))
      | JObj kvs \<Rightarrow> Inr (int (length kvs))
      | _ \<Rightarrow> Inl TypeError)"

text \<open>\<^verbatim>\<open>' ' * n\<close>: empty when \<open>n\<close> is negative.\<close>

definition spaces :: "int \<Rightarrow> string" where
  "spaces n = replicate (nat n) CHR '' ''"

text \<open>\<^verbatim>\<open>sep.join(items)\<close>: an item that is not a string raises \<^verbatim>\<open>TypeError\<close>.\<close>

fun strs_of :: "json list \<Rightarrow> pyerr + string list" where
  "strs_of [] = Inr []"
| "strs_of (v # vs) =
     (case v of
        JStr s \<Rightarrow> (case strs_of vs of Inl e \<Rightarrow> Inl e | Inr ss \<Rightarrow> Inr (s # ss))
      | _ \<Rightarrow> Inl TypeError)"

definition py_join :: "string \<Rightarrow> json list \<Rightarrow> pyerr + string" where
  "py_join sep items = (case strs_of items of Inl e \<Rightarrow> Inl e | Inr ss \<Rightarrow> Inr (join_with sep ss))"

text \<open>\<^verbatim>\<open>s.replace(old, new)\<close>; with an empty \<open>old\<close>, \<open>new\<close> goes before every character
  and at the end.\<close>

function replace_nonempty :: "string \<Rightarrow> string \<Rightarrow> string \<Rightarrow> string" where
  "replace_nonempty old new s =
     (if s = [] \<or> old = [] then s
      else if take (length old) s = old then new @ replace_nonempty old new (drop (length old) s)
      else hd s # replace_nonempty old new (tl s))"
  by pat_completeness auto
termination
  by (relation "measure (\<lambda>(old, new, s). length s)") auto

declare replace_nonempty.simps [simp del]

definition replace :: "string \<Rightarrow> string \<Rightarrow> string \<Rightarrow> string" where
  "replace s old new =
     (if old = [] then new @ concat (map (\<lambda>c. c # new) s) else replace_nonempty old new s)"

text \<open>\<^verbatim>\<open>textwrap.fill(v, width)\<close>: a value that is not a string has no \<^verbatim>\<open>expandtabs\<close>.\<close>

definition py_fill :: "env \<Rightarrow> json \<Rightarrow> int \<Rightarrow> pyerr + string" where
  "py_fill env v w = (case v of JStr s \<Rightarrow> fill env s w | _ \<Rightarrow> Inl AttributeError)"

text \<open>\<^verbatim>\<open>v >= 0\<close>.\<close>

definition ge_zero :: "json \<Rightarrow> pyerr + bool" where
  "ge_zero v =
     (case v of
        JInt i \<Rightarrow> Inr (0 \<le> i)
      | JFloat r \<Rightarrow> Inr (0 \<le> r)
      | JBool b \<Rightarrow> Inr True
      | _ \<Rightarrow> Inl TypeError)"

section \<open>Colours and box characters\<close>

text \<open>The attributes of \<^verbatim>\<open>Colors\<close> that the script uses; all of them are empty in simple
  mode. The box-drawing characters are single characters; they are written here at their
  positions in code page 437.\<close>

definition esc :: "string \<Rightarrow> string" where
  "esc code = CHR 0x1B # CHR ''['' # code @ ''m''"

definition BLUE :: "env \<Rightarrow> string" where
  "BLUE env = (if simple env then [] else esc ''94'')"

definition GREEN :: "env \<Rightarrow> string" where
  "GREEN env = (if simple env then [] else esc ''92'')"

definition YELLOW :: "env \<Rightarrow> string" where
  "YELLOW env = (if simple env then [] else esc ''93'')"

definition RED :: "env \<Rightarrow> string" where
  "RED env = (if simple env then [] else esc ''91'')"

definition ENDC :: "env \<Rightarrow> string" where
  "ENDC env = (if simple env then [] else esc ''0'')"

definition BOLD :: "env \<Rightarrow> string" where
  "BOLD env = (if simple env then [] else esc ''1'')"

definition BG_BLUE :: "env \<Rightarrow> string" where
  "BG_BLUE env = (if simple env then [] else esc ''44'')"

definition box_v :: char where "box_v = CHR 0xB3"
definition box_h :: char where "box_h = CHR 0xC4"
definition box_dr :: char where "box_dr = CHR 0xDA"
definition box_dl :: char where "box_dl = CHR 0xBF"
definition box_ur :: char where "box_ur = CHR 0xC0"
definition box_ul :: char where "box_ul = CHR 0xD9"
definition box_vr :: char where "box_vr = CHR 0xC3"
definition box_vl :: char where "box_vl = CHR 0xB4"

text \<open>The visible text of a printed line: the escape sequences removed. The flag says
  whether the scan is inside a sequence.\<close>

fun strip_escapes :: "bool \<Rightarrow> string \<Rightarrow> string" where
  "strip_escapes inside [] = []"
| "strip_escapes inside (c # cs) =
     (if inside then (if c = CHR ''m'' then strip_escapes False cs else strip_escapes True cs)
      else if c = CHR 0x1B then strip_escapes True cs
      else c # strip_escapes False cs)"

definition visible :: "string \<Rightarrow> string" where
  "visible s = strip_escapes False s"

section \<open>The clients\<close>

text \<open>A function of the script returns, ends the process with \<^verbatim>\<open>sys.exit\<close>, or lets an
  exception escape.\<close>

datatype 'a outcome = Return 'a | SysExit int | Raised pyerr

text \<open>\<^verbatim>\<open>get_public_ip\<close> catches \<^verbatim>\<open>URLError\<close> only.\<close>

definition ipify_url :: string where
  "ipify_url = ''https://api.ipify.org''"

definition get_public_ip :: "env \<Rightarrow> string outcome" where
  "get_public_ip env =
     (case http_text env ipify_url of
        Inr body \<Rightarrow> Return body
      | Inl e \<Rightarrow> if e = URLError then SysExit 1 else Raised e)"

definition basic_fields :: string where
  "basic_fields = ''status,message,country,countryCode,region,regionName,city,zip,lat,lon,timezone,isp,org,as,query''"

definition detailed_fields :: string where
  "detailed_fields = '',currency,proxy,hosting,mobile,continent,continentCode,district,asname,reverse,offset,languages''"

definition geo_url :: "string \<Rightarrow> bool \<Rightarrow> string" where
  "geo_url ip detailed =
     ''http://ip-api.com/json/'' @ ip @ ''?fields='' @ basic_fields
       @ (if detailed then detailed_fields else [])"

definition get_ip_info :: "env \<Rightarrow> string \<Rightarrow> bool \<Rightarrow> json outcome" where
  "get_ip_info env ip detailed =
     (case http_json env (geo_url ip detailed) of
        Inr v \<Rightarrow> Return v
      | Inl e \<Rightarrow> if e = URLError then SysExit 1 else Raised e)"

subsection \<open>Country enrichment\<close>

definition bind_err :: "pyerr + 'a \<Rightarrow> ('a \<Rightarrow> pyerr + 'b) \<Rightarrow> pyerr + 'b" where
  "bind_err r f = (case r of Inl e \<Rightarrow> Inl e | Inr x \<Rightarrow> f x)"

text \<open>\<^verbatim>\<open>v[0]\<close> and \<^verbatim>\<open>v.get(k, default)\<close> on a value of any shape.\<close>

definition py_index0 :: "json \<Rightarrow> pyerr + json" where
  "py_index0 v =
     (case v of
        JArr xs \<Rightarrow> (case xs of [] \<Rightarrow> Inl IndexError | x # _ \<Rightarrow> Inr x)
      | JStr s \<Rightarrow> (case s of [] \<Rightarrow> Inl IndexError | c # _ \<Rightarrow> Inr (JStr [c]))
      | JObj kvs \<Rightarrow> Inl KeyError
      | _ \<Rightarrow> Inl TypeError)"

definition py_get :: "json \<Rightarrow> string \<Rightarrow> json \<Rightarrow> pyerr + json" where
  "py_get v k dflt = (case v of JObj d \<Rightarrow> Inr (get_default d k dflt) | _ \<Rightarrow> Inl AttributeError)"

text \<open>The seven assignments to \<^verbatim>\<open>additional_info\<close>, in the order of the source: the key and
  the value of the right-hand side, or the exception it raises.\<close>

definition country_fields :: "json \<Rightarrow> (string \<times> (pyerr + json)) list" where
  "country_fields country =
     [(''population'', py_get country ''population'' JNull),
      (''capital'', bind_err (py_get country ''capital'' (JArr [JStr ''''])) py_index0),
      (''currencies'', py_get country ''currencies'' (JObj [])),
      (''languages'', py_get country ''languages'' (JObj [])),
      (''flag'', bind_err (py_get country ''flags'' (JObj [])) (\<lambda>flags. py_get flags ''png'' (JStr ''''))),
      (''region'', py_get country ''region'' JNull),
      (''subregion'', py_get country ''subregion'' JNull)]"

fun assign_all :: "(string \<times> (pyerr + json)) list \<Rightarrow> dict \<Rightarrow> dict \<times> pyerr option" where
  "assign_all [] d = (d, None)"
| "assign_all ((k, r) # rest) d =
     (case r of Inl e \<Rightarrow> (d, Some e) | Inr v \<Rightarrow> assign_all rest (AList.update k v d))"

definition country_url :: "env \<Rightarrow> json \<Rightarrow> string" where
  "country_url env country_code = ''https://restcountries.com/v3.1/alpha/'' @ py_str env country_code"

text \<open>The body of the \<^verbatim>\<open>try\<close>: \<^verbatim>\<open>additional_info\<close> as the body leaves it, and the
  exception that ended it, if any.\<close>

definition country_lookup :: "env \<Rightarrow> dict \<Rightarrow> dict \<times> pyerr option" where
  "country_lookup env ip_info =
     (case subscript ip_info ''countryCode'' of
        Inl e \<Rightarrow> ([], Some e)
      | Inr country_code \<Rightarrow>
         (case http_json env (country_url env country_code) of
            Inl e \<Rightarrow> ([], Some e)
          | Inr country_data \<Rightarrow>
              if truthy country_data then
                (case py_len country_data of
                   Inl e \<Rightarrow> ([], Some e)
                 | Inr n \<Rightarrow>
                     if n > 0 then
                       (case py_index0 country_data of
                          Inl e \<Rightarrow> ([], Some e)
                        | Inr country \<Rightarrow> assign_all (country_fields country) [])
                     else ([], None))
              else ([], None)))"

text \<open>\<^verbatim>\<open>get_additional_info\<close>: the dictionary it returns and the URLs it has requested.
  \<^verbatim>\<open>except Exception: pass\<close> drops the exception of the body.\<close>

definition get_additional_info :: "env \<Rightarrow> dict \<Rightarrow> dict \<times> string list" where
  "get_additional_info env ip_info =
     (if has_key ip_info ''countryCode'' then
        (fst (country_lookup env ip_info), [country_url env (get ip_info ''countryCode'')])
      else ([], []))"

section \<open>The command line\<close>

datatype format = Json | Csv | Html | Terminal

record args =
  arg_ip :: "string option"
  arg_simple :: bool
  arg_detailed :: bool
  arg_format :: format
  arg_output :: "string option"

text \<open>What \<^verbatim>\<open>main\<close> does, as the sequence of its steps that reach outside of it: a call
  of the validator, a request, the call of a renderer with its arguments, the end of the
  process. \<open>NotARecord\<close> stands for the failure of the script on a reply of the geolocation
  service that is not a JSON object. The messages that \<^verbatim>\<open>main\<close> prints are left out.\<close>

datatype action =
  Validate string
| Fetch string
| Render format dict "dict option" "string option"
| Exit int
| Uncaught pyerr
| NotARecord

definition lookup_and_render :: "env \<Rightarrow> args \<Rightarrow> string \<Rightarrow> action list" where
  "lookup_and_render env a ip =
     Fetch (geo_url ip (arg_detailed a)) #
     (case get_ip_info env ip (arg_detailed a) of
        SysExit n \<Rightarrow> [Exit n]
      | Raised e \<Rightarrow> [Uncaught e]
      | Return v \<Rightarrow>
          (case v of
             JObj ip_info \<Rightarrow>
               (if arg_detailed a then
                  map Fetch (snd (get_additional_info env ip_info))
                    @ [Render (arg_format a) ip_info (Some (fst (get_additional_info env ip_info)))
                         (arg_output a)]
                else [Render (arg_format a) ip_info None (arg_output a)])
           | _ \<Rightarrow> [NotARecord]))"

definition own_ip :: "env \<Rightarrow> args \<Rightarrow> action list" where
  "own_ip env a =
     Fetch ipify_url #
     (case get_public_ip env of
        Return ip \<Rightarrow> lookup_and_render env a ip
      | SysExit n \<Rightarrow> [Exit n]
      | Raised e \<Rightarrow> [Uncaught e])"

definition given_ip :: "env \<Rightarrow> args \<Rightarrow> string \<Rightarrow> action list" where
  "given_ip env a ip =
     Validate ip #
     (case validate_ip ip of
        Inl e \<Rightarrow> [Uncaught e]
      | Inr ok \<Rightarrow> if ok then lookup_and_render env a ip else [Exit 1])"

definition main :: "env \<Rightarrow> args \<Rightarrow> action list" where
  "main env0 a =
     (let env = env0\<lparr>simple := arg_simple a\<rparr> in
      if arg_format a \<noteq> Terminal \<and> (arg_output a = None \<or> arg_output a = Some []) then [Exit 1]
      else case arg_ip a of
             None \<Rightarrow> own_ip env a
           | Some ip \<Rightarrow> if ip = [] then own_ip env a else given_ip env a ip)"

section \<open>The JSON and CSV exporters\<close>

text \<open>\<^verbatim>\<open>if additional_info:\<close> holds for a dictionary that is not empty.\<close>

definition add_truthy :: "dict option \<Rightarrow> bool" where
  "add_truthy additional_info = (case additional_info of None \<Rightarrow> False | Some d \<Rightarrow> d \<noteq> [])"

definition add_dict :: "dict option \<Rightarrow> dict" where
  "add_dict additional_info = (case additional_info of None \<Rightarrow> [] | Some d \<Rightarrow> d)"

text \<open>\<^verbatim>\<open>export_to_json\<close>: the object that the function hands to \<^verbatim>\<open>json.dump\<close>. The file
  holds its serialisation, which \<^verbatim>\<open>json.load\<close> reads back to the same object.\<close>

definition export_to_json :: "env \<Rightarrow> dict \<Rightarrow> dict option \<Rightarrow> dict" where
  "export_to_json env ip_info additional_info =
     AList.update ''timestamp'' (JStr (now env))
       (if add_truthy additional_info
        then AList.update ''additional_info'' (JObj (add_dict additional_info)) ip_info
        else ip_info)"

text \<open>\<^verbatim>\<open>export_to_csv\<close>. The list comprehension over the items of a dictionary value:\<close>

definition flat_value :: "dict \<Rightarrow> string" where
  "flat_value kvs =
     join_with '', '' (map (\<lambda>(k, v). case v of JStr s \<Rightarrow> k @ '': '' @ s | _ \<Rightarrow> k) kvs)"

text \<open>The loop over \<^verbatim>\<open>additional_info.items()\<close>, which updates \<^verbatim>\<open>flat_data\<close>:\<close>

fun flatten_into :: "dict \<Rightarrow> dict \<Rightarrow> dict" where
  "flatten_into flat_data [] = flat_data"
| "flatten_into flat_data ((key, v) # rest) =
     flatten_into
       (AList.update (''additional_'' @ key)
          (case v of JObj kvs \<Rightarrow> JStr (flat_value kvs) | _ \<Rightarrow> v) flat_data)
       rest"

definition flat_data :: "env \<Rightarrow> dict \<Rightarrow> dict option \<Rightarrow> dict" where
  "flat_data env ip_info additional_info =
     AList.update ''timestamp'' (JStr (now env))
       (if add_truthy additional_info then flatten_into ip_info (add_dict additional_info)
        else ip_info)"

text \<open>The rows that the function hands to \<^verbatim>\<open>csv.DictWriter\<close>: \<^verbatim>\<open>writeheader\<close> writes the
  keys, \<^verbatim>\<open>writerow\<close> the values; the writer turns \<^verbatim>\<open>None\<close> into an empty cell and any other
  value into its text.\<close>

definition csv_cell :: "env \<Rightarrow> json \<Rightarrow> string" where
  "csv_cell env v = (case v of JNull \<Rightarrow> [] | _ \<Rightarrow> py_str env v)"

definition export_to_csv :: "env \<Rightarrow> dict \<Rightarrow> dict option \<Rightarrow> string list list" where
  "export_to_csv env ip_info additional_info =
     [map fst (flat_data env ip_info additional_info),
      map (\<lambda>(k, v). csv_cell env v) (flat_data env ip_info additional_info)]"

text \<open>The flattening of a mapping as the specification words it: pairs \<open>key: value\<close>
  joined by a comma and a space.\<close>

definition spec_flat_value :: "env \<Rightarrow> dict \<Rightarrow> string" where
  "spec_flat_value env kvs = join_with '', '' (map (\<lambda>(k, v). k @ '': '' @ py_str env v) kvs)"

text \<open>A GeoRecord has its keys among the fields that \<^verbatim>\<open>get_ip_info\<close> requests, each once.\<close>

definition geo_fields :: "string list" where
  "geo_fields = split_on CHR '','' (basic_fields @ detailed_fields)"

definition geo_record :: "dict \<Rightarrow> bool" where
  "geo_record ip_info = (distinct (map fst ip_info) \<and> list_all (\<lambda>k. k \<in> set geo_fields) (map fst ip_info))"

section \<open>The terminal renderer\<close>

text \<open>
  \<^verbatim>\<open>display_ip_info\<close> prints line by line, and an exception ends it after the lines
  printed so far. One statement of the function is the list of strings it prints (one
  per call of \<^verbatim>\<open>print\<close>) or the exception it raises; the function is the run of its
  statements in the order of the source.
\<close>

type_synonym stmt = "pyerr + string list"

fun run_stmts :: "stmt list \<Rightarrow> string list \<times> pyerr option" where
  "run_stmts [] = ([], None)"
| "run_stmts (Inl e # rest) = ([], Some e)"
| "run_stmts (Inr ls # rest) = (case run_stmts rest of (out, err) \<Rightarrow> (ls @ out, err))"

definition newline :: char where
  "newline = CHR 0x0A"

text \<open>The shapes of the printed lines. A field row:
  \<^verbatim>\<open>f"{GREEN}| {BOLD}label{ENDC} {text}{' ' * pad} {GREEN}|{ENDC}"\<close>.\<close>

definition row :: "env \<Rightarrow> string \<Rightarrow> string \<Rightarrow> int \<Rightarrow> string" where
  "row env label text pad =
     GREEN env @ [box_v] @ '' '' @ BOLD env @ label @ ENDC env @ '' '' @ text @ spaces pad
       @ '' '' @ GREEN env @ [box_v] @ ENDC env"

text \<open>A continuation row: \<^verbatim>\<open>f"{GREEN}|indent{line}{' ' * pad} {GREEN}|{ENDC}"\<close>.\<close>

definition cont_row :: "env \<Rightarrow> string \<Rightarrow> string \<Rightarrow> int \<Rightarrow> string" where
  "cont_row env indent line pad =
     GREEN env @ [box_v] @ indent @ line @ spaces pad @ '' '' @ GREEN env @ [box_v] @ ENDC env"

text \<open>A section title:
  \<^verbatim>\<open>f"{GREEN}| {BOLD}{YELLOW}title{' ' * pad}{ENDC} {GREEN}|{ENDC}"\<close>.\<close>

definition title_row :: "env \<Rightarrow> string \<Rightarrow> int \<Rightarrow> string" where
  "title_row env title pad =
     GREEN env @ [box_v] @ '' '' @ BOLD env @ YELLOW env @ title @ spaces pad @ ENDC env
       @ '' '' @ GREEN env @ [box_v] @ ENDC env"

text \<open>A border: \<^verbatim>\<open>f"{GREEN}l{'-' * (width - 2)}r{ENDC}"\<close>.\<close>

definition border :: "env \<Rightarrow> char \<Rightarrow> char \<Rightarrow> int \<Rightarrow> string" where
  "border env l r width = GREEN env @ [l] @ replicate (nat (width - 2)) box_h @ [r] @ ENDC env"

text \<open>A block that wraps its text: the text as \<^verbatim>\<open>textwrap.fill\<close> returns it, split at the
  line breaks, the first line in a field row and the others in continuation rows.\<close>

definition wrapped_rows :: "pyerr + string \<Rightarrow> (string \<Rightarrow> string) \<Rightarrow> (string \<Rightarrow> string) \<Rightarrow> stmt" where
  "wrapped_rows filled first_row other_row =
     (case filled of
        Inl e \<Rightarrow> Inl e
      | Inr text \<Rightarrow>
          (case split_on newline text of
             [] \<Rightarrow> Inl IndexError
           | l # ls \<Rightarrow> Inr (first_row l # map other_row ls)))"

definition when_stmt :: "bool \<Rightarrow> stmt \<Rightarrow> stmt" where
  "when_stmt c s = (if c then s else Inr [])"

subsection \<open>The banner with the address\<close>

definition header_stmts :: "env \<Rightarrow> dict \<Rightarrow> int \<Rightarrow> stmt list" where
  "header_stmts env ip_info width =
     [Inr [[newline] @ BG_BLUE env @ BOLD env @ spaces width @ ENDC env],
      (case subscript ip_info ''query'' of
         Inl e \<Rightarrow> Inl e
       | Inr query \<Rightarrow>
           (let ip_header = ''  IP: '' @ py_str env query @ ''  '';
                pad_length = width - int (length ip_header)
                               + int (length (BG_BLUE env @ BOLD env @ ENDC env))
            in Inr [BG_BLUE env @ BOLD env @ ip_header @ spaces pad_length @ ENDC env])),
      Inr [BG_BLUE env @ BOLD env @ spaces width @ ENDC env @ [newline]]]"

subsection \<open>The location block\<close>

definition location_parts :: "env \<Rightarrow> dict \<Rightarrow> json list" where
  "location_parts env ip_info =
     (if truthy (get ip_info ''city'') then [get ip_info ''city''] else [])
     @ (if truthy (get ip_info ''regionName'') then [get ip_info ''regionName''] else [])
     @ (if truthy (get ip_info ''country'') then
          (if truthy (get ip_info ''countryCode'')
           then [JStr (py_str env (get ip_info ''country'') @ '' (''
                        @ py_str env (get ip_info ''countryCode'') @ '')'')]
           else [get ip_info ''country''])
        else [])"

definition location :: "env \<Rightarrow> dict \<Rightarrow> pyerr + string" where
  "location env ip_info = py_join '', '' (location_parts env ip_info)"

text \<open>A row whose text is the raw value of a field, measured by \<^verbatim>\<open>len\<close>.\<close>

definition raw_row :: "env \<Rightarrow> string \<Rightarrow> json \<Rightarrow> int \<Rightarrow> stmt" where
  "raw_row env label v room =
     (case py_len v of
        Inl e \<Rightarrow> Inl e
      | Inr n \<Rightarrow> Inr [row env label (py_str env v) (room - n)])"

definition text_row :: "env \<Rightarrow> string \<Rightarrow> string \<Rightarrow> int \<Rightarrow> stmt" where
  "text_row env label text room = Inr [row env label text (room - int (length text))]"

definition time_info :: "env \<Rightarrow> dict \<Rightarrow> string" where
  "time_info env ip_info =
     (if has_key ip_info ''timezone''
      then BLUE env @ ''Local Time:'' @ ENDC env @ '' '' @ now env @ '' (Approx. based on timezone)''
      else [])"

definition time_stmt :: "env \<Rightarrow> dict \<Rightarrow> int \<Rightarrow> stmt" where
  "time_stmt env ip_info width =
     when_stmt (time_info env ip_info \<noteq> [])
       (let time_display = replace (replace (time_info env ip_info) (BLUE env) []) (ENDC env) []
        in wrapped_rows (fill env time_display (width - 4))
             (\<lambda>line. GREEN env @ [box_v] @ '' '' @ BLUE env @ ''Local Time:'' @ ENDC env @ '' ''
                       @ replace line ''Local Time: '' []
                       @ spaces (width - 12 - int (length line) + int (length ''Local Time: ''))
                       @ '' '' @ GREEN env @ [box_v] @ ENDC env)
             (\<lambda>line. cont_row env ''  '' line (width - 4 - int (length line))))"

definition offset_stmt :: "env \<Rightarrow> dict \<Rightarrow> int \<Rightarrow> stmt" where
  "offset_stmt env ip_info width =
     when_stmt (get ip_info ''offset'' \<noteq> JNull)
       (case ge_zero (get ip_info ''offset'') of
          Inl e \<Rightarrow> Inl e
        | Inr nonneg \<Rightarrow>
            text_row env ''Time Offset:''
              (''UTC '' @ (if nonneg then ''+'' else []) @ py_str env (get ip_info ''offset''))
              (width - 14))"

definition location_stmts :: "env \<Rightarrow> dict \<Rightarrow> int \<Rightarrow> stmt list" where
  "location_stmts env ip_info width =
     [(case location env ip_info of Inl e \<Rightarrow> Inl e | Inr loc \<Rightarrow> Inr []),
      Inr [border env box_dr box_dl width],
      (case location env ip_info of
         Inl e \<Rightarrow> Inl e
       | Inr loc \<Rightarrow> text_row env ''Location:'' loc (width - 11)),
      when_stmt (truthy (get ip_info ''continent''))
        (text_row env ''Continent:''
           (py_str env (get ip_info ''continent'') @ '' (''
              @ py_str env (get_default ip_info ''continentCode'' (JStr [])) @ '')'')
           (width - 12)),
      when_stmt (truthy (get ip_info ''district''))
        (raw_row env ''District:'' (get ip_info ''district'') (width - 11)),
      when_stmt (has_key ip_info ''lat'' \<and> has_key ip_info ''lon'')
        (text_row env ''Coordinates:''
           (py_str env (get ip_info ''lat'') @ '', '' @ py_str env (get ip_info ''lon''))
           (width - 14)),
      when_stmt (truthy (get ip_info ''zip''))
        (raw_row env ''Postal Code:'' (get ip_info ''zip'') (width - 14)),
      when_stmt (truthy (get ip_info ''timezone''))
        (raw_row env ''Timezone:'' (get ip_info ''timezone'') (width - 11)),
      offset_stmt env ip_info width,
      time_stmt env ip_info width]"

subsection \<open>The additional information block\<close>

definition yes_no :: "json \<Rightarrow> string" where
  "yes_no v = (if truthy v then ''Yes'' else ''No'')"

text \<open>\<^verbatim>\<open>v.items()\<close>.\<close>

definition py_items :: "json \<Rightarrow> pyerr + dict" where
  "py_items v = (case v of JObj kvs \<Rightarrow> Inr kvs | _ \<Rightarrow> Inl AttributeError)"

definition currency_list :: "env \<Rightarrow> dict \<Rightarrow> string list" where
  "currency_list env currencies =
     map (\<lambda>(code, info).
            case info of
              JObj d \<Rightarrow> if has_key d ''name'' then code @ '' ('' @ py_str env (get d ''name'') @ '')''
                        else code
            | _ \<Rightarrow> code) currencies"

definition lang_list :: "env \<Rightarrow> dict \<Rightarrow> string list" where
  "lang_list env languages = map (\<lambda>(code, name). py_str env name @ '' ('' @ code @ '')'') languages"

definition additional_gate :: "dict \<Rightarrow> dict option \<Rightarrow> bool" where
  "additional_gate ip_info additional_info =
     (get ip_info ''proxy'' \<noteq> JNull \<or> get ip_info ''hosting'' \<noteq> JNull
      \<or> get ip_info ''mobile'' \<noteq> JNull \<or> add_truthy additional_info)"

definition currencies_stmt :: "env \<Rightarrow> dict option \<Rightarrow> int \<Rightarrow> stmt" where
  "currencies_stmt env additional_info width =
     when_stmt (add_truthy additional_info \<and> truthy (get (add_dict additional_info) ''currencies''))
       (case py_items (get (add_dict additional_info) ''currencies'') of
          Inl e \<Rightarrow> Inl e
        | Inr items \<Rightarrow>
            wrapped_rows (fill env (join_with '', '' (currency_list env items)) (width - 13))
              (\<lambda>line. row env ''Currencies:'' line (width - 13 - int (length line)))
              (\<lambda>line. cont_row env ''            '' line (width - 12 - int (length line))))"

definition languages_stmt :: "env \<Rightarrow> dict option \<Rightarrow> int \<Rightarrow> stmt" where
  "languages_stmt env additional_info width =
     when_stmt (add_truthy additional_info \<and> truthy (get (add_dict additional_info) ''languages''))
       (case py_items (get (add_dict additional_info) ''languages'') of
          Inl e \<Rightarrow> Inl e
        | Inr items \<Rightarrow>
            wrapped_rows (fill env (join_with '', '' (lang_list env items)) (width - 13))
              (\<lambda>line. row env ''Languages:'' line (width - 12 - int (length line)))
              (\<lambda>line. cont_row env ''            '' line (width - 12 - int (length line))))"

definition additional_stmts :: "env \<Rightarrow> dict \<Rightarrow> dict option \<Rightarrow> int \<Rightarrow> stmt list" where
  "additional_stmts env ip_info additional_info width =
     (if additional_gate ip_info additional_info then
        [Inr [border env box_vr box_vl width],
         Inr [title_row env ''Additional Information'' (width - 23)],
         Inr [border env box_vr box_vl width],
         when_stmt (get ip_info ''proxy'' \<noteq> JNull)
           (text_row env ''Using Proxy:'' (yes_no (get ip_info ''proxy'')) (width - 15)),
         when_stmt (get ip_info ''hosting'' \<noteq> JNull)
           (text_row env ''Hosting/DC:'' (yes_no (get ip_info ''hosting'')) (width - 13)),
         when_stmt (get ip_info ''mobile'' \<noteq> JNull)
           (text_row env ''Mobile Network:'' (yes_no (get ip_info ''mobile'')) (width - 17)),
         when_stmt (add_truthy additional_info \<and> truthy (get (add_dict additional_info) ''population''))
           (case format_commas env (get (add_dict additional_info) ''population'') of
              Inl e \<Rightarrow> Inl e
            | Inr population \<Rightarrow> text_row env ''Country Population:'' population (width - 21)),
         when_stmt (add_truthy additional_info \<and> truthy (get (add_dict additional_info) ''capital''))
           (raw_row env ''Capital:'' (get (add_dict additional_info) ''capital'') (width - 10)),
         currencies_stmt env additional_info width,
         languages_stmt env additional_info width]
      else [])"

subsection \<open>The network block, the bottom border and the trailer\<close>

definition wrapped_field :: "env \<Rightarrow> dict \<Rightarrow> string \<Rightarrow> string \<Rightarrow> string \<Rightarrow> int \<Rightarrow> int \<Rightarrow> stmt" where
  "wrapped_field env ip_info key label indent wrap_width room =
     when_stmt (truthy (get ip_info key))
       (wrapped_rows (py_fill env (get ip_info key) wrap_width)
          (\<lambda>line. row env label line (room - int (length line)))
          (\<lambda>line. cont_row env indent line (room - int (length line))))"

definition network_stmts :: "env \<Rightarrow> dict \<Rightarrow> int \<Rightarrow> stmt list" where
  "network_stmts env ip_info width =
     [Inr [border env box_vr box_vl width],
      Inr [title_row env ''Network Information'' (width - 21)],
      Inr [border env box_vr box_vl width],
      wrapped_field env ip_info ''reverse'' ''Reverse DNS:'' ''              '' (width - 15) (width - 14),
      wrapped_field env ip_info ''isp'' ''ISP:'' ''      '' (width - 8) (width - 6),
      wrapped_field env ip_info ''org'' ''ORG:'' ''      '' (width - 8) (width - 6),
      when_stmt (truthy (get ip_info ''as''))
        (wrapped_rows (py_fill env (get ip_info ''as'') (width - 8))
           (\<lambda>line. GREEN env @ [box_v] @ '' '' @ BOLD env @ ''AS:'' @ ENDC env @ ''  '' @ line
                     @ spaces (width - 6 - int (length line)) @ '' '' @ GREEN env @ [box_v] @ ENDC env)
           (\<lambda>line. cont_row env ''      '' line (width - 6 - int (length line)))),
      wrapped_field env ip_info ''asname'' ''AS Name:'' ''          '' (width - 14) (width - 10),
      Inr [border env box_ur box_ul width]]"

definition map_url :: "env \<Rightarrow> dict \<Rightarrow> string" where
  "map_url env ip_info =
     ''https://www.openstreetmap.org/?mlat='' @ py_str env (get ip_info ''lat'')
       @ ''&mlon='' @ py_str env (get ip_info ''lon'')
       @ ''#map=12/'' @ py_str env (get ip_info ''lat'') @ ''/'' @ py_str env (get ip_info ''lon'')"

definition trailer_stmts :: "env \<Rightarrow> dict \<Rightarrow> dict option \<Rightarrow> stmt list" where
  "trailer_stmts env ip_info additional_info =
     [when_stmt (has_key ip_info ''lat'' \<and> has_key ip_info ''lon'')
        (Inr [[newline] @ BLUE env @ ''View on map:'' @ ENDC env @ '' '' @ map_url env ip_info]),
      when_stmt (add_truthy additional_info \<and> truthy (get (add_dict additional_info) ''flag''))
        (Inr [BLUE env @ ''Country flag:'' @ ENDC env @ '' ''
                @ py_str env (get (add_dict additional_info) ''flag'')])]"

subsection \<open>The renderer\<close>

definition error_line :: "env \<Rightarrow> dict \<Rightarrow> string" where
  "error_line env ip_info =
     RED env @ ''Error: '' @ py_str env (get_default ip_info ''message'' (JStr ''Unknown error''))
       @ ENDC env"

definition box_width :: "int \<Rightarrow> int" where
  "box_width terminal_width = min 80 (terminal_width - 4)"

definition display_ip_info :: "env \<Rightarrow> dict \<Rightarrow> dict option \<Rightarrow> string list \<times> pyerr option" where
  "display_ip_info env ip_info additional_info =
     (if get ip_info ''status'' \<noteq> JStr ''success'' then ([error_line env ip_info], None)
      else case terminal_columns env of
             Inl e \<Rightarrow> ([], Some e)
           | Inr terminal_width \<Rightarrow>
               run_stmts
                 (header_stmts env ip_info (box_width terminal_width)
                  @ location_stmts env ip_info (box_width terminal_width)
                  @ additional_stmts env ip_info additional_info (box_width terminal_width)
                  @ network_stmts env ip_info (box_width terminal_width)
                  @ trailer_stmts env ip_info additional_info))"

section \<open>The HTML exporter\<close>

text \<open>One row of a table as the templates of \<^verbatim>\<open>export_to_html\<close> write it, at the indentation
  of the template.\<close>

definition table_row :: "string \<Rightarrow> string \<Rightarrow> string \<Rightarrow> string" where
  "table_row indent label text =
     [newline] @ indent @ ''<tr>'' @ [newline] @ indent @ ''    <td>'' @ label @ ''</td>'' @ [newline]
       @ indent @ ''    <td>'' @ text @ ''</td>'' @ [newline] @ indent @ ''</tr>'' @ [newline] @ indent"

definition map_html :: "env \<Rightarrow> dict \<Rightarrow> string" where
  \<open>map_html env ip_info =
     (if has_key ip_info ''lat'' \<and> has_key ip_info ''lon'' then
     ''
        <div class="map-container">
            <h2>Location Map</h2>
            <div id="map"></div>
            <script>
                var map = L.map('map').setView([''
     @ py_str env (get ip_info ''lat'')
     @ '', ''
     @ py_str env (get ip_info ''lon'')
     @ ''], 10);
                L.tileLayer('https://{s}.tile.openstreetmap.org/{z}/{x}/{y}.png', {
                    attribution: '&copy; <a href="https://www.openstreetmap.org/copyright">OpenStreetMap</a> contributors'
                }).addTo(map);
                L.marker([''
     @ py_str env (get ip_info ''lat'')
     @ '', ''
     @ py_str env (get ip_info ''lon'')
     @ '']).addTo(map)
                    .bindPopup("''
     @ py_str env (get_default ip_info ''city'' (JStr []))
     @ '', ''
     @ py_str env (get_default ip_info ''regionName'' (JStr []))
     @ '', ''
     @ py_str env (get_default ip_info ''country'' (JStr []))
     @ ''")
                    .openPopup();
            </script>
        </div>
        ''
      else [])\<close>

definition flag_html :: "env \<Rightarrow> dict option \<Rightarrow> string" where
  \<open>flag_html env additional_info =
     (if add_truthy additional_info \<and> truthy (get (add_dict additional_info) ''flag'') then
     ''
        <div class="flag-container">
            <h2>Country Flag</h2>
            <img src="''
     @ py_str env (get (add_dict additional_info) ''flag'')
     @ ''" alt="Country flag" class="flag">
        </div>
        ''
      else [])\<close>

definition additional_html :: "string \<Rightarrow> string" where
  \<open>additional_html rows =
     (if rows \<noteq> [] then
     ''
            <div class="info-container">
                <h2>Additional Country Information</h2>
                <table class="info-table">
                    ''
     @ rows
     @ ''
                </table>
            </div>
            ''
      else [])\<close>

definition html_page :: "env \<Rightarrow> dict \<Rightarrow> string \<Rightarrow> string \<Rightarrow> string \<Rightarrow> string \<Rightarrow> string" where
  \<open>html_page env ip_info info additional flag map_part =
     ''<!DOCTYPE html>
<html lang="en">
<head>
    <meta charset="UTF-8">
    <meta name="viewport" content="width=device-width, initial-scale=1.0">
    <title>IP Geolocation: ''
     @ py_str env (get_default ip_info ''query'' (JStr ''Unknown IP''))
     @ ''</title>
    <link rel="stylesheet" href="https://unpkg.com/leaflet@1.7.1/dist/leaflet.css"
          integrity="sha512-xodZBNTC5n17Xt2atTPuE1HxjVMSvLVW9ocqUKLsCC5CXdbqCmblAshOMAS6/keqq/sMZMZ19scR4PsZChSR7A=="
          crossorigin=""/>
    <script src="https://unpkg.com/leaflet@1.7.1/dist/leaflet.js"
            integrity="sha512-XQoYMqMTK8LvdxXYG3nZ448hOEQiglfqkJs1NOQV44cWnUrBc8PkAOcXy20w0vlaXaVUearIOBhiXZ5V3ynxwA=="
            crossorigin=""></script>
    <style>
        body {
            font-family: Arial, sans-serif;
            line-height: 1.6;
            margin: 0;
            padding: 20px;
            color: #333;
            background-color: #f5f5f5;
        }
        .container {
            max-width: 1200px;
            margin: 0 auto;
            background-color: white;
            padding: 20px;
            border-radius: 5px;
            box-shadow: 0 0 10px rgba(0,0,0,0.1);
        }
        header {
            background-color: #3498db;
            color: white;
            padding: 20px;
            text-align: center;
            border-radius: 5px 5px 0 0;
            margin-bottom: 20px;
        }
        h1, h2 {
            margin-top: 0;
        }
        .info-container {
            margin-bottom: 20px;
        }
        .info-table {
            width: 100%;
            border-collapse: collapse;
        }
        .info-table td, .info-table th {
            padding: 12px 15px;
            border: 1px solid #ddd;
        }
        .info-table tr:nth-child(even) {
            background-color: #f2f2f2;
        }
        .info-table tr:hover {
            background-color: #ddd;
        }
        .map-container {
            margin-top: 20px;
        }
        #map {
            height: 400px;
            border-radius: 5px;
            margin-bottom: 20px;
        }
        .flag {
            max-width: 200px;
            border: 1px solid #ddd;
        }
        footer {
            text-align: center;
            margin-top: 20px;
            padding: 10px;
            background-color: #f2f2f2;
            border-radius: 0 0 5px 5px;
        }
        .two-column {
            display: flex;
            flex-wrap: wrap;
            gap: 20px;
        }
        .column {
            flex: 1;
            min-width: 300px;
        }
    </style>
</head>
<body>
    <div class="container">
        <header>
            <h1>IP Geolocation Report</h1>
            <p>Generated on ''
     @ now env
     @ ''</p>
        </header>
        
        <div class="info-container">
            <h2>IP Information: ''
     @ py_str env (get_default ip_info ''query'' (JStr ''Unknown IP''))
     @ ''</h2>
            <table class="info-table">
                ''
     @ info
     @ ''
            </table>
        </div>
        
        <div class="two-column">
            <div class="column">
                ''
     @ additional
     @ ''
                ''
     @ flag
     @ ''
            </div>
            <div class="column">
                ''
     @ map_part
     @ ''
            </div>
        </div>
        
        <footer>
            <p>Generated by IP Geolocation Tool v1.1</p>
        </footer>
    </div>
</body>
</html>
''\<close>

text \<open>The rows of the table of country data: the empty string without enrichment.\<close>

definition additional_rows :: "env \<Rightarrow> dict option \<Rightarrow> pyerr + string" where
  "additional_rows env additional_info =
     (if add_truthy additional_info then
        bind_err
          (if truthy (get (add_dict additional_info) ''population'')
           then bind_err (format_commas env (get (add_dict additional_info) ''population''))
                  (\<lambda>population. Inr (table_row ''            '' ''Population'' population))
           else Inr [])
          (\<lambda>population_row.
        bind_err
          (if truthy (get (add_dict additional_info) ''currencies'')
           then bind_err (py_items (get (add_dict additional_info) ''currencies''))
                  (\<lambda>items. Inr (table_row ''            '' ''Currencies''
                                    (join_with '', '' (currency_list env items))))
           else Inr [])
          (\<lambda>currencies_row.
        bind_err
          (if truthy (get (add_dict additional_info) ''languages'')
           then bind_err (py_items (get (add_dict additional_info) ''languages''))
                  (\<lambda>items. Inr (table_row ''            '' ''Languages''
                                    (join_with '', '' (lang_list env items))))
           else Inr [])
          (\<lambda>languages_row.
             Inr (population_row
                  @ (if truthy (get (add_dict additional_info) ''capital'')
                     then table_row ''            '' ''Capital''
                            (py_str env (get (add_dict additional_info) ''capital''))
                     else [])
                  @ currencies_row @ languages_row))))
      else Inr [])"

text \<open>The rows of the main table.\<close>

definition info_rows :: "env \<Rightarrow> dict \<Rightarrow> pyerr + string" where
  "info_rows env ip_info =
     bind_err (location env ip_info)
       (\<lambda>loc. Inr
          (table_row ''    '' ''IP Address'' (py_str env (get_default ip_info ''query'' (JStr ''N/A'')))
           @ ''<tr>'' @ [newline] @ ''        <td>Location</td>'' @ [newline]
           @ ''        <td>'' @ loc @ ''</td>'' @ [newline] @ ''    </tr>'' @ [newline] @ ''    ''
           @ (if truthy (get ip_info ''continent'')
              then table_row ''        '' ''Continent''
                     (py_str env (get ip_info ''continent'') @ '' (''
                        @ py_str env (get_default ip_info ''continentCode'' (JStr [])) @ '')'')
              else [])
           @ (if has_key ip_info ''lat'' \<and> has_key ip_info ''lon''
              then table_row ''        '' ''Coordinates''
                     (py_str env (get ip_info ''lat'') @ '', '' @ py_str env (get ip_info ''lon''))
              else [])
           @ (if truthy (get ip_info ''timezone'')
              then table_row ''        '' ''Timezone'' (py_str env (get ip_info ''timezone''))
              else [])
           @ (if get ip_info ''proxy'' \<noteq> JNull
              then table_row ''        '' ''Using Proxy'' (yes_no (get ip_info ''proxy''))
              else [])
           @ (if get ip_info ''hosting'' \<noteq> JNull
              then table_row ''        '' ''Hosting/DC'' (yes_no (get ip_info ''hosting''))
              else [])
           @ (if get ip_info ''mobile'' \<noteq> JNull
              then table_row ''        '' ''Mobile Network'' (yes_no (get ip_info ''mobile''))
              else [])
           @ (if truthy (get ip_info ''isp'')
              then table_row ''        '' ''ISP'' (py_str env (get ip_info ''isp''))
              else [])
           @ (if truthy (get ip_info ''org'')
              then table_row ''        '' ''Organization'' (py_str env (get ip_info ''org''))
              else [])
           @ (if truthy (get ip_info ''as'')
              then table_row ''        '' ''AS'' (py_str env (get ip_info ''as''))
              else [])))"

text \<open>\<^verbatim>\<open>export_to_html\<close>: the text written to the file, or the exception raised before
  the file is opened. The question about the browser that follows is left out.\<close>

definition export_to_html :: "env \<Rightarrow> dict \<Rightarrow> dict option \<Rightarrow> pyerr + string" where
  "export_to_html env ip_info additional_info =
     bind_err (additional_rows env additional_info)
       (\<lambda>rows.
     bind_err (info_rows env ip_info)
       (\<lambda>info.
          Inr (html_page env ip_info info (additional_html rows)
                 (flag_html env additional_info) (map_html env ip_info))))"

section \<open>Texts within texts\<close>

text \<open>Whether a text starts with another, and whether it holds another.\<close>

fun is_prefix :: "string \<Rightarrow> string \<Rightarrow> bool" where
  "is_prefix [] s = True"
| "is_prefix (c # cs) [] = False"
| "is_prefix (c # cs) (d # ds) = (c = d \<and> is_prefix cs ds)"

fun contains :: "string \<Rightarrow> string \<Rightarrow> bool" where
  "contains [] sub = (sub = [])"
| "contains (c # cs) sub = (is_prefix sub (c # cs) \<or> contains cs sub)"

text \<open>Whether a printed line is the title of a section of the box: its visible text
  starts with the vertical bar, a space and the title.\<close>

definition is_title_of :: "string \<Rightarrow> string \<Rightarrow> bool" where
  "is_title_of title line = is_prefix (box_v # '' '' @ title) (visible line)"

text \<open>A statement prints no title of the given section.\<close>

definition no_title :: "string \<Rightarrow> stmt \<Rightarrow> bool" where
  "no_title title s = (case s of Inl e \<Rightarrow> True | Inr ls \<Rightarrow> list_all (\<lambda>l. \<not> is_title_of title l) ls)"

section \<open>An environment for the examples\<close>

text \<open>A terminal of 84 columns with colours, texts short enough for \<^verbatim>\<open>textwrap.fill\<close>
  to leave them as they are, and services that answer with a given reply.\<close>

definition reply :: "'a \<Rightarrow> string \<Rightarrow> pyerr + 'a" where
  "reply v url = Inr v"

definition unwrapped :: "string \<Rightarrow> int \<Rightarrow> pyerr + string" where
  "unwrapped text width = Inr text"

definition opaque :: "'a \<Rightarrow> string" where
  "opaque v = ''...''"

definition example_env :: env where
  "example_env =
     \<lparr>simple = False, terminal_columns = Inr 84, now = ''2024-01-01 12:00:00'',
      fill = unwrapped, repr = opaque, float_commas = opaque,
      http_text = reply ''203.0.113.7'', http_json = reply (JArr [])\<rparr>"

definition example_geo :: dict where
  "example_geo = [(''status'', JStr ''success''), (''countryCode'', JStr ''US''),
                  (''proxy'', JBool False), (''query'', JStr ''8.8.8.8'')]"

definition example_currencies :: json where
  "example_currencies =
     JObj [(''USD'', JObj [(''name'', JStr ''US Dollar'')]), (''EUR'', JObj [(''name'', JStr ''Euro'')])]"

definition example_enrichment :: dict where
  "example_enrichment =
     [(''population'', JInt 1000), (''capital'', JStr ''Springfield''),
      (''currencies'', example_currencies), (''languages'', JObj [(''eng'', JStr ''English'')]),
      (''flag'', JStr ''https://flags.example/us.png''), (''region'', JStr ''Americas''),
      (''subregion'', JNull)]"

section \<open>Properties of the validator\<close>

lemma split_on_nonempty: "split_on sep s \<noteq> []"
  by (induction s) (auto split: list.splits)

lemma join_split_on: "join_with [sep] (split_on sep s) = s"
proof (induction s)
  case Nil
  show ?case by simp
next
  case (Cons c cs)
  show ?case
  proof (cases "c = sep")
    case True
    obtain p ps where ps: "split_on sep cs = p # ps"
      using split_on_nonempty [of sep cs] by (cases "split_on sep cs") auto
    from True ps Cons show ?thesis by simp
  next
    case False
    obtain p ps where ps: "split_on sep cs = p # ps"
      using split_on_nonempty [of sep cs] by (cases "split_on sep cs") auto
    from False ps Cons show ?thesis by (cases ps) auto
  qed
qed

lemma digit_of_10: "digit_of 10 c = (if is_digit c then Some (of_char c - 48) else None)"
  by (auto simp: digit_of_def is_digit_def Let_def)

lemma digits_from_decimal:
  "list_all is_digit a \<Longrightarrow> rest = [] \<or> \<not> is_digit (hd rest) \<Longrightarrow>
   digits_from 10 acc (a @ rest) = (foldl (\<lambda>a c. a * 10 + (of_char c - 48)) acc a, rest)"
proof (induction a arbitrary: acc)
  case Nil
  then show ?case by (cases rest) (auto simp: digit_of_10)
next
  case (Cons c cs)
  then show ?case by (simp add: digit_of_10)
qed

lemma not_digit_dot: "\<not> is_digit CHR ''.''"
  by (simp add: is_digit_def)

lemma strtoul_octet:
  assumes "decimal_octet a" and "rest = [] \<or> hd rest = CHR ''.''"
  shows "strtoul (a @ rest) = (dec_value a, rest)"
proof (cases "a = ''0''")
  case True
  with assms(2) show ?thesis
    by (cases rest) (auto simp: strtoul_def dec_value_def digit_of_def Let_def)
next
  case False
  from assms(1) have ne: "a \<noteq> []" and dg: "list_all is_digit a"
    and lz: "length a = 1 \<or> hd a \<noteq> CHR ''0''"
    by (auto simp: decimal_octet_def)
  from ne obtain c cs where a: "a = c # cs" by (cases a) auto
  from False lz a have c0: "c \<noteq> CHR ''0''" by (cases cs) auto
  from assms(2) have r: "rest = [] \<or> \<not> is_digit (hd rest)"
    by (auto simp: not_digit_dot)
  have "strtoul (a @ rest) = digits_from 10 0 (a @ rest)"
    using a c0 by (cases "cs @ rest") (auto simp: strtoul_def)
  also have "\<dots> = (dec_value a, rest)"
    using digits_from_decimal [OF dg r] by (simp add: dec_value_def)
  finally show ?thesis .
qed

lemma octet_no_dot: "decimal_octet a \<Longrightarrow> CHR ''.'' \<notin> set a"
  by (auto simp: decimal_octet_def list_all_iff not_digit_dot)

lemma octet_no_nul: "decimal_octet a \<Longrightarrow> CHR 0x00 \<notin> set a"
  by (auto simp: decimal_octet_def list_all_iff is_digit_def)

lemma foldl_digits_nonneg:
  "list_all is_digit a \<Longrightarrow> (0::int) \<le> acc \<Longrightarrow> 0 \<le> foldl (\<lambda>a c. a * 10 + (of_char c - 48)) acc a"
  by (induction a arbitrary: acc) (auto simp: is_digit_def)

lemma octet_value: "decimal_octet a \<Longrightarrow> 0 \<le> dec_value a \<and> dec_value a \<le> 255"
  using foldl_digits_nonneg [of a 0] by (simp add: decimal_octet_def dec_value_def)

lemma octet_hd: "decimal_octet a \<Longrightarrow> \<exists>c cs. a = c # cs \<and> is_digit c"
  by (cases a) (auto simp: decimal_octet_def)

lemma loop_unfold:
  assumes "s = c # cs" "is_digit c" "strtoul s = (v, r)" "v \<le> 0xff"
  shows "inet_aton_loop parts s =
     (if r \<noteq> [] \<and> hd r = CHR ''.'' then
        (if length parts > 2 then None else inet_aton_loop (parts @ [v]) (tl r))
      else if \<not> trailing_ok r then None
      else if v > part_max (length parts) then None
      else Some (foldl (\<lambda>a p. a * 256 + p) 0 parts * 256 ^ (4 - length parts) + v))"
  using assms by (subst inet_aton_loop.simps) (simp del: foldl_append)

lemma loop_dot:
  assumes "decimal_octet a" "length parts \<le> 2"
  shows "inet_aton_loop parts (a @ CHR ''.'' # rest) = inet_aton_loop (parts @ [dec_value a]) rest"
proof -
  from octet_hd [OF assms(1)] obtain c cs where a: "a = c # cs" and c: "is_digit c" by blast
  have st: "strtoul (a @ CHR ''.'' # rest) = (dec_value a, CHR ''.'' # rest)"
    using strtoul_octet [OF assms(1), of "CHR ''.'' # rest"] by simp
  have s: "a @ CHR ''.'' # rest = c # (cs @ CHR ''.'' # rest)" by (simp add: a)
  from octet_value [OF assms(1)] have v: "dec_value a \<le> 0xff" by simp
  show ?thesis
    using assms(2) by (simp add: loop_unfold [OF s c st v])
qed

lemma loop_last:
  assumes "decimal_octet a" "length parts = 3"
  shows "inet_aton_loop parts a \<noteq> None"
proof -
  from octet_hd [OF assms(1)] obtain c cs where a: "a = c # cs" and c: "is_digit c" by blast
  have st: "strtoul a = (dec_value a, [])"
    using strtoul_octet [OF assms(1), of "[]"] by simp
  from octet_value [OF assms(1)] have v: "dec_value a \<le> 0xff" by simp
  show ?thesis
    using assms(2) v by (simp add: loop_unfold [OF a c st v] trailing_ok_def part_max_def)
qed

lemma inet_aton_quad:
  assumes "decimal_octet a" "decimal_octet b" "decimal_octet c" "decimal_octet d"
  shows "inet_aton (a @ ''.'' @ b @ ''.'' @ c @ ''.'' @ d) \<noteq> None"
  using loop_last [OF assms(4), of "[dec_value a, dec_value b, dec_value c]"]
  by (simp add: inet_aton_def loop_dot assms)

lemma spec_valid_split:
  assumes "spec_valid_ipv4 s"
  shows "\<exists>a b c d. s = a @ ''.'' @ b @ ''.'' @ c @ ''.'' @ d \<and> decimal_octet a \<and> decimal_octet b
            \<and> decimal_octet c \<and> decimal_octet d"
proof -
  from assms have len: "length (split_on CHR ''.'' s) = 4"
    and oct: "list_all decimal_octet (split_on CHR ''.'' s)"
    by (auto simp: spec_valid_ipv4_def)
  from len obtain a b c d where sp: "split_on CHR ''.'' s = [a, b, c, d]"
    by (auto simp: length_Suc_conv numeral_eq_Suc)
  have "s = join_with ''.'' (split_on CHR ''.'' s)" by (simp add: join_split_on)
  with sp have "s = a @ ''.'' @ b @ ''.'' @ c @ ''.'' @ d" by simp
  with oct sp show ?thesis by auto
qed

lemma valid_accepted: "spec_valid_ipv4 s \<Longrightarrow> validate_ip s = Inr True"
proof -
  assume v: "spec_valid_ipv4 s"
  from spec_valid_split [OF v] obtain a b c d where
    s: "s = a @ ''.'' @ b @ ''.'' @ c @ ''.'' @ d" and
    o: "decimal_octet a" "decimal_octet b" "decimal_octet c" "decimal_octet d" by blast
  have nul: "CHR 0x00 \<notin> set s"
    using o by (auto simp: s dest: octet_no_nul)
  from inet_aton_quad [OF o] obtain x where "inet_aton s = Some x" by (auto simp: s)
  with nul show ?thesis by (simp add: validate_ip_def socket_inet_aton_def)
qed

lemma validate_ip_examples:
  "validate_ip ''8.8.8.8'' = Inr True"
  "validate_ip [] = Inr False"
  "validate_ip ''8.8.8.8.8'' = Inr False"
  "validate_ip ''999.1.1.1'' = Inr False"
  "validate_ip ''abc'' = Inr False"
  by code_simp+

lemma validate_ip_lenient:
  "validate_ip ''1'' = Inr True"
  "validate_ip ''127.1'' = Inr True"
  "validate_ip ''0x7f.1'' = Inr True"
  "validate_ip ''010.8.8.8'' = Inr True"
  "validate_ip ''1.2.3.4 x'' = Inr True"
  by code_simp+

text \<open>
  Claim C2, as the code has it: \<^verbatim>\<open>validate_ip\<close> returns true for every dotted-decimal
  address (four decimal octets from 0 to 255 without leading zeros, three dots, nothing
  else), true for \<^verbatim>\<open>8.8.8.8\<close>, and false for the empty string, \<^verbatim>\<open>8.8.8.8.8\<close>,
  \<^verbatim>\<open>999.1.1.1\<close> and \<^verbatim>\<open>abc\<close>. The converse does not hold: \<^verbatim>\<open>inet_aton\<close> also accepts
  addresses of one to three parts, octal and hexadecimal parts, and text after white space.
\<close>

theorem validate_ip_accepts_dotted_decimal:
  "(spec_valid_ipv4 s \<longrightarrow> validate_ip s = Inr True)
   \<and> validate_ip ''8.8.8.8'' = Inr True
   \<and> validate_ip [] = Inr False
   \<and> validate_ip ''8.8.8.8.8'' = Inr False
   \<and> validate_ip ''999.1.1.1'' = Inr False
   \<and> validate_ip ''abc'' = Inr False"
  using valid_accepted [of s] validate_ip_examples by blast

theorem validate_ip_accepts_dotted_decimal_witness:
  "spec_valid_ipv4 ''192.168.0.1'' \<and> validate_ip ''192.168.0.1'' = Inr True"
proof -
  have h: "spec_valid_ipv4 ''192.168.0.1''" by code_simp
  from validate_ip_accepts_dotted_decimal [of "''192.168.0.1''"] h show ?thesis by blast
qed

text \<open>Claim C2 as stated fails: \<^verbatim>\<open>validate_ip\<close> accepts \<^verbatim>\<open>1\<close>, which is not four octets.\<close>

theorem validate_ip_one_part_counterexample:
  "\<not> (validate_ip ''1'' = Inr True \<longleftrightarrow> spec_valid_ipv4 ''1'')"
proof -
  have "validate_ip ''1'' = Inr True" by code_simp
  moreover have "\<not> spec_valid_ipv4 ''1''" by code_simp
  ultimately show ?thesis by blast
qed

section \<open>Properties of the enrichment client\<close>



lemma update_fresh: "k \<notin> set (map fst d) \<Longrightarrow> AList.update k v d = d @ [(k, v)]"
  by (induction d) auto






section \<open>Fields that the country service leaves out\<close>

text \<open>A lookup that finds a country and ends without an exception has stored all seven
  fields: the capital is the first element of the list of capitals (or of the default
  list), the flag the entry \<^verbatim>\<open>png\<close> of the flags (or of the default dictionary).\<close>

lemma successful_lookup_record:
  assumes "has_key ip_info ''countryCode''"
    and "http_json env (country_url env (get ip_info ''countryCode'')) = Inr (JArr (JObj country # others))"
    and "snd (country_lookup env ip_info) = None"
  shows "\<exists>capital flag.
     py_index0 (get_default country ''capital'' (JArr [JStr []])) = Inr capital
     \<and> py_get (get_default country ''flags'' (JObj [])) ''png'' (JStr []) = Inr flag
     \<and> fst (get_additional_info env ip_info) =
         [(''population'', get_default country ''population'' JNull),
          (''capital'', capital),
          (''currencies'', get_default country ''currencies'' (JObj [])),
          (''languages'', get_default country ''languages'' (JObj [])),
          (''flag'', flag),
          (''region'', get_default country ''region'' JNull),
          (''subregion'', get_default country ''subregion'' JNull)]"
proof -
  from assms(1) obtain cc where cc: "map_of ip_info ''countryCode'' = Some cc"
    by (auto simp: has_key_def split: option.splits)
  have g: "get ip_info ''countryCode'' = cc" by (simp add: get_def get_default_def cc)
  have f: "country_fields (JObj country) =
     [(''population'', Inr (get_default country ''population'' JNull)),
      (''capital'', py_index0 (get_default country ''capital'' (JArr [JStr []]))),
      (''currencies'', Inr (get_default country ''currencies'' (JObj []))),
      (''languages'', Inr (get_default country ''languages'' (JObj []))),
      (''flag'', py_get (get_default country ''flags'' (JObj [])) ''png'' (JStr [])),
      (''region'', Inr (get_default country ''region'' JNull)),
      (''subregion'', Inr (get_default country ''subregion'' JNull))]"
    by (simp add: country_fields_def py_get_def bind_err_def)
  have l: "country_lookup env ip_info = assign_all (country_fields (JObj country)) []"
    using assms(2) cc g
    by (simp add: country_lookup_def subscript_def py_len_def py_index0_def)
  from assms(3) obtain capital where
    c: "py_index0 (get_default country ''capital'' (JArr [JStr []])) = Inr capital"
    unfolding l f
    by (cases "py_index0 (get_default country ''capital'' (JArr [JStr []]))") auto
  from assms(3) obtain flag where
    fl: "py_get (get_default country ''flags'' (JObj [])) ''png'' (JStr []) = Inr flag"
    unfolding l f c
    by (cases "py_get (get_default country ''flags'' (JObj [])) ''png'' (JStr [])") auto
  have "fst (get_additional_info env ip_info) =
         [(''population'', get_default country ''population'' JNull),
          (''capital'', capital),
          (''currencies'', get_default country ''currencies'' (JObj [])),
          (''languages'', get_default country ''languages'' (JObj [])),
          (''flag'', flag),
          (''region'', get_default country ''region'' JNull),
          (''subregion'', get_default country ''subregion'' JNull)]"
    using assms(1) by (simp add: get_additional_info_def l f c fl)
  with c fl show ?thesis by blast
qed

text \<open>
  Claim C4, as the code has it: when the lookup succeeds (the reply is a list that starts
  with a country object, and no exception ends the extraction), \<^verbatim>\<open>additional_info\<close> has
  all seven keys, whatever the reply holds. A field that the reply has is stored with its
  value (the first capital, the \<^verbatim>\<open>png\<close> entry of the flags), and a field that the reply
  leaves out is stored as its default: \<^verbatim>\<open>None\<close> for the population, the region and the
  subregion, the empty string for the capital and the flag, the empty dictionary for the
  currencies and the languages.
\<close>

theorem get_additional_info_defaults:
  assumes "has_key ip_info ''countryCode''"
    and "http_json env (country_url env (get ip_info ''countryCode'')) = Inr (JArr (JObj country # others))"
    and "snd (country_lookup env ip_info) = None"
  shows "map fst (fst (get_additional_info env ip_info)) =
           [''population'', ''capital'', ''currencies'', ''languages'', ''flag'', ''region'', ''subregion'']
   \<and> map_of (fst (get_additional_info env ip_info)) ''population''
       = Some (get_default country ''population'' JNull)
   \<and> Inr (get (fst (get_additional_info env ip_info)) ''capital'')
       = py_index0 (get_default country ''capital'' (JArr [JStr []]))
   \<and> map_of (fst (get_additional_info env ip_info)) ''currencies''
       = Some (get_default country ''currencies'' (JObj []))
   \<and> map_of (fst (get_additional_info env ip_info)) ''languages''
       = Some (get_default country ''languages'' (JObj []))
   \<and> Inr (get (fst (get_additional_info env ip_info)) ''flag'')
       = py_get (get_default country ''flags'' (JObj [])) ''png'' (JStr [])
   \<and> map_of (fst (get_additional_info env ip_info)) ''region''
       = Some (get_default country ''region'' JNull)
   \<and> map_of (fst (get_additional_info env ip_info)) ''subregion''
       = Some (get_default country ''subregion'' JNull)
   \<and> (map_of country ''population'' = None
        \<longrightarrow> map_of (fst (get_additional_info env ip_info)) ''population'' = Some JNull)
   \<and> (map_of country ''capital'' = None
        \<longrightarrow> map_of (fst (get_additional_info env ip_info)) ''capital'' = Some (JStr []))
   \<and> (map_of country ''currencies'' = None
        \<longrightarrow> map_of (fst (get_additional_info env ip_info)) ''currencies'' = Some (JObj []))
   \<and> (map_of country ''languages'' = None
        \<longrightarrow> map_of (fst (get_additional_info env ip_info)) ''languages'' = Some (JObj []))
   \<and> (map_of country ''flags'' = None
        \<longrightarrow> map_of (fst (get_additional_info env ip_info)) ''flag'' = Some (JStr []))
   \<and> (\<forall>flags. map_of country ''flags'' = Some (JObj flags) \<and> map_of flags ''png'' = None
        \<longrightarrow> map_of (fst (get_additional_info env ip_info)) ''flag'' = Some (JStr []))
   \<and> (map_of country ''region'' = None
        \<longrightarrow> map_of (fst (get_additional_info env ip_info)) ''region'' = Some JNull)
   \<and> (map_of country ''subregion'' = None
        \<longrightarrow> map_of (fst (get_additional_info env ip_info)) ''subregion'' = Some JNull)"
proof -
  from successful_lookup_record [OF assms] obtain capital flag where
    c: "py_index0 (get_default country ''capital'' (JArr [JStr []])) = Inr capital" and
    f: "py_get (get_default country ''flags'' (JObj [])) ''png'' (JStr []) = Inr flag" and
    r: "fst (get_additional_info env ip_info) =
         [(''population'', get_default country ''population'' JNull),
          (''capital'', capital),
          (''currencies'', get_default country ''currencies'' (JObj [])),
          (''languages'', get_default country ''languages'' (JObj [])),
          (''flag'', flag),
          (''region'', get_default country ''region'' JNull),
          (''subregion'', get_default country ''subregion'' JNull)]"
    by blast
  have cap: "capital = JStr []" if "map_of country ''capital'' = None"
    using c that by (simp add: get_default_def py_index0_def)
  have fl1: "flag = JStr []" if "map_of country ''flags'' = None"
    using f that by (simp add: get_default_def py_get_def)
  have fl2: "flag = JStr []"
    if "map_of country ''flags'' = Some (JObj flags) \<and> map_of flags ''png'' = None" for flags
    using f that by (simp add: get_default_def py_get_def)
  have d: "map_of country k = None \<Longrightarrow> get_default country k v = v" for k v
    by (simp add: get_default_def)
  show ?thesis
    unfolding r
    using cap fl1 fl2 d
    by (auto simp add: c [symmetric] f [symmetric] get_def get_default_def [of "(_ :: string, _) # _"])
qed

theorem get_additional_info_defaults_witness:
  "has_key example_geo ''countryCode''
   \<and> http_json (example_env\<lparr>http_json :=
              reply (JArr [JObj [(''population'', JInt 1000), (''capital'', JArr [JStr ''Paris''])]])\<rparr>)
         (country_url (example_env\<lparr>http_json :=
              reply (JArr [JObj [(''population'', JInt 1000), (''capital'', JArr [JStr ''Paris''])]])\<rparr>)
            (get example_geo ''countryCode''))
       = Inr (JArr [JObj [(''population'', JInt 1000), (''capital'', JArr [JStr ''Paris''])]])
   \<and> snd (country_lookup (example_env\<lparr>http_json :=
              reply (JArr [JObj [(''population'', JInt 1000), (''capital'', JArr [JStr ''Paris''])]])\<rparr>)
            example_geo) = None
   \<and> map fst (fst (get_additional_info (example_env\<lparr>http_json :=
              reply (JArr [JObj [(''population'', JInt 1000), (''capital'', JArr [JStr ''Paris''])]])\<rparr>)
            example_geo))
       = [''population'', ''capital'', ''currencies'', ''languages'', ''flag'', ''region'', ''subregion'']
   \<and> map_of (fst (get_additional_info (example_env\<lparr>http_json :=
              reply (JArr [JObj [(''population'', JInt 1000), (''capital'', JArr [JStr ''Paris''])]])\<rparr>)
            example_geo)) ''population'' = Some (JInt 1000)
   \<and> map_of [(''population'', JInt 1000), (''capital'', JArr [JStr ''Paris''])] ''flags'' = None
   \<and> map_of (fst (get_additional_info (example_env\<lparr>http_json :=
              reply (JArr [JObj [(''population'', JInt 1000), (''capital'', JArr [JStr ''Paris''])]])\<rparr>)
            example_geo)) ''flag'' = Some (JStr [])
   \<and> map_of [(''population'', JInt 1000), (''capital'', JArr [JStr ''Paris''])] ''region'' = None
   \<and> map_of (fst (get_additional_info (example_env\<lparr>http_json :=
              reply (JArr [JObj [(''population'', JInt 1000), (''capital'', JArr [JStr ''Paris''])]])\<rparr>)
            example_geo)) ''region'' = Some JNull"
proof -
  let ?env = "example_env\<lparr>http_json :=
              reply (JArr [JObj [(''population'', JInt 1000), (''capital'', JArr [JStr ''Paris''])]])\<rparr>"
  have a: "has_key example_geo ''countryCode''"
    by (simp add: has_key_def example_geo_def)
  have b: "http_json ?env (country_url ?env (get example_geo ''countryCode''))
       = Inr (JArr (JObj [(''population'', JInt 1000), (''capital'', JArr [JStr ''Paris''])] # []))"
    by (simp add: reply_def)
  have c: "snd (country_lookup ?env example_geo) = None"
    by (simp add: country_lookup_def example_geo_def subscript_def reply_def py_len_def
          py_index0_def country_fields_def py_get_def get_default_def bind_err_def)
  have d: "map_of [(''population'', JInt 1000), (''capital'', JArr [JStr ''Paris''])] ''flags'' = None"
    "map_of [(''population'', JInt 1000), (''capital'', JArr [JStr ''Paris''])] ''region'' = None"
    by simp_all
  from get_additional_info_defaults [OF a b c] a b c d show ?thesis
    by (simp add: get_default_def)
qed

text \<open>Claim C4 as stated fails: for a reply without a capital and without flags, the
  record holds both keys, with the empty string.\<close>

theorem get_additional_info_placeholder_counterexample:
  "map_of (fst (get_additional_info
             (example_env\<lparr>http_json := reply (JArr [JObj [(''population'', JInt 1000)]])\<rparr>)
             example_geo)) ''capital'' = Some (JStr [])
   \<and> map_of (fst (get_additional_info
             (example_env\<lparr>http_json := reply (JArr [JObj [(''population'', JInt 1000)]])\<rparr>)
             example_geo)) ''flag'' = Some (JStr [])"
  by (simp add: get_additional_info_def country_lookup_def example_geo_def has_key_def subscript_def
        reply_def py_len_def py_index0_def country_fields_def py_get_def get_default_def bind_err_def)

section \<open>Properties of the command line\<close>

lemma validate_not_in_lookup: "Validate x \<notin> set (lookup_and_render env a ip)"
  by (auto simp: lookup_and_render_def split: outcome.splits json.splits)

lemma validate_not_in_own_ip: "Validate x \<notin> set (own_ip env a)"
  by (auto simp: own_ip_def validate_not_in_lookup split: outcome.splits)

lemma validate_in_given_ip: "Validate x \<in> set (given_ip env a ip) \<Longrightarrow> x = ip"
  by (auto simp: given_ip_def validate_not_in_lookup split: sum.splits if_splits)

lemma fetch_in_lookup: "Fetch (geo_url ip (arg_detailed a)) \<in> set (lookup_and_render env a ip)"
  by (simp add: lookup_and_render_def)

text \<open>
  Claim C10: \<^verbatim>\<open>main\<close> calls the validator on nothing but an address given on the
  command line. Without one (the argument omitted or empty), and with the output options
  in order, the text that the public-IP service returns, whatever it is, goes into the
  request to the geolocation service, and no call of the validator is made.
\<close>

theorem main_validates_given_ip_only:
  "(Validate x \<in> set (main env a) \<longrightarrow> arg_ip a = Some x \<and> x \<noteq> [])
   \<and> ((arg_ip a = None \<or> arg_ip a = Some [])
        \<and> (arg_format a = Terminal \<or> (arg_output a \<noteq> None \<and> arg_output a \<noteq> Some []))
        \<and> http_text env ipify_url = Inr s
      \<longrightarrow> Fetch (geo_url s (arg_detailed a)) \<in> set (main env a)
          \<and> (\<forall>y. Validate y \<notin> set (main env a)))"
proof -
  have 1: "arg_ip a = Some x \<and> x \<noteq> []" if "Validate x \<in> set (main env a)"
    using that
    by (auto simp: main_def Let_def validate_not_in_own_ip dest: validate_in_given_ip
          split: if_splits option.splits)
  have 2: "Fetch (geo_url s (arg_detailed a)) \<in> set (main env a)
           \<and> (\<forall>y. Validate y \<notin> set (main env a))"
    if h: "(arg_ip a = None \<or> arg_ip a = Some [])
        \<and> (arg_format a = Terminal \<or> (arg_output a \<noteq> None \<and> arg_output a \<noteq> Some []))
        \<and> http_text env ipify_url = Inr s"
  proof -
    from h have m: "main env a = own_ip (env\<lparr>simple := arg_simple a\<rparr>) a"
      by (auto simp: main_def Let_def)
    from h have "own_ip (env\<lparr>simple := arg_simple a\<rparr>) a
                 = Fetch ipify_url # lookup_and_render (env\<lparr>simple := arg_simple a\<rparr>) a s"
      by (simp add: own_ip_def get_public_ip_def)
    with m have "Fetch (geo_url s (arg_detailed a)) \<in> set (main env a)"
      by (simp add: fetch_in_lookup)
    moreover from m have "\<forall>y. Validate y \<notin> set (main env a)"
      by (simp add: validate_not_in_own_ip)
    ultimately show ?thesis by blast
  qed
  from 1 2 show ?thesis by blast
qed

text \<open>The witness: the service returns \<^verbatim>\<open>not an address\<close>, which the validator rejects,
  and the text is looked up all the same.\<close>

theorem main_validates_given_ip_only_witness:
  "validate_ip ''not an address'' = Inr False
   \<and> http_text (example_env\<lparr>http_text := reply ''not an address''\<rparr>) ipify_url = Inr ''not an address''
   \<and> Fetch (geo_url ''not an address'' False)
       \<in> set (main (example_env\<lparr>http_text := reply ''not an address''\<rparr>)
                \<lparr>arg_ip = None, arg_simple = False, arg_detailed = False,
                 arg_format = Terminal, arg_output = None\<rparr>)
   \<and> Validate ''not an address''
       \<notin> set (main (example_env\<lparr>http_text := reply ''not an address''\<rparr>)
                \<lparr>arg_ip = None, arg_simple = False, arg_detailed = False,
                 arg_format = Terminal, arg_output = None\<rparr>)
   \<and> Validate ''8.8.8.8''
       \<in> set (main example_env
                \<lparr>arg_ip = Some ''8.8.8.8'', arg_simple = False, arg_detailed = False,
                 arg_format = Terminal, arg_output = None\<rparr>)
   \<and> arg_ip \<lparr>arg_ip = Some ''8.8.8.8'', arg_simple = False, arg_detailed = False,
                 arg_format = Terminal, arg_output = None\<rparr> = Some ''8.8.8.8''"
proof -
  have v: "validate_ip ''not an address'' = Inr False" by code_simp
  have t: "http_text (example_env\<lparr>http_text := reply ''not an address''\<rparr>) ipify_url
           = Inr ''not an address''"
    by (simp add: reply_def)
  have g: "Validate ''8.8.8.8''
       \<in> set (main example_env
                \<lparr>arg_ip = Some ''8.8.8.8'', arg_simple = False, arg_detailed = False,
                 arg_format = Terminal, arg_output = None\<rparr>)"
    by (simp add: main_def given_ip_def)
  from main_validates_given_ip_only
         [of "''8.8.8.8''" example_env
             "\<lparr>arg_ip = Some ''8.8.8.8'', arg_simple = False, arg_detailed = False,
               arg_format = Terminal, arg_output = None\<rparr>"] g
  have 1: "arg_ip \<lparr>arg_ip = Some ''8.8.8.8'', arg_simple = False, arg_detailed = False,
                 arg_format = Terminal, arg_output = None\<rparr> = Some ''8.8.8.8''"
    by blast
  from main_validates_given_ip_only
         [of _ "example_env\<lparr>http_text := reply ''not an address''\<rparr>"
             "\<lparr>arg_ip = None, arg_simple = False, arg_detailed = False,
               arg_format = Terminal, arg_output = None\<rparr>" "''not an address''"] t
  have 2: "Fetch (geo_url ''not an address'' False)
       \<in> set (main (example_env\<lparr>http_text := reply ''not an address''\<rparr>)
                \<lparr>arg_ip = None, arg_simple = False, arg_detailed = False,
                 arg_format = Terminal, arg_output = None\<rparr>)"
    and 3: "Validate ''not an address''
       \<notin> set (main (example_env\<lparr>http_text := reply ''not an address''\<rparr>)
                \<lparr>arg_ip = None, arg_simple = False, arg_detailed = False,
                 arg_format = Terminal, arg_output = None\<rparr>)"
    by simp_all
  from v t g 1 2 3 show ?thesis by blast
qed

section \<open>Properties of the JSON exporter\<close>

lemma geo_fields_list:
  "geo_fields =
     [''status'', ''message'', ''country'', ''countryCode'', ''region'', ''regionName'', ''city'',
      ''zip'', ''lat'', ''lon'', ''timezone'', ''isp'', ''org'', ''as'', ''query'', ''currency'',
      ''proxy'', ''hosting'', ''mobile'', ''continent'', ''continentCode'', ''district'', ''asname'',
      ''reverse'', ''offset'', ''languages'']"
  by (simp add: geo_fields_def basic_fields_def detailed_fields_def)

lemma geo_record_keys: "geo_record ip_info \<Longrightarrow> k \<notin> set geo_fields \<Longrightarrow> k \<notin> set (map fst ip_info)"
  by (auto simp: geo_record_def list_all_iff)

lemma geo_record_fresh:
  assumes "geo_record ip_info"
  shows "''timestamp'' \<notin> set (map fst ip_info)" and "''additional_info'' \<notin> set (map fst ip_info)"
  by (rule geo_record_keys [OF assms], simp add: geo_fields_list)+

lemma export_to_json_appends:
  assumes "geo_record ip_info"
  shows "export_to_json env ip_info additional_info =
           ip_info
           @ (if add_truthy additional_info then [(''additional_info'', JObj (add_dict additional_info))]
              else [])
           @ [(''timestamp'', JStr (now env))]"
  using geo_record_fresh [OF assms]
  by (simp add: export_to_json_def update_fresh)

text \<open>
  Claim C9: the object that \<^verbatim>\<open>export_to_json\<close> writes holds every field of the GeoRecord
  with its value, the key \<^verbatim>\<open>timestamp\<close> with the time of the export, and the key
  \<^verbatim>\<open>additional_info\<close> with the enrichment exactly when there is one (a dictionary that is
  not empty); it has no other key.
\<close>

theorem export_to_json_round_trip:
  assumes "geo_record ip_info"
  shows "(\<forall>k v. map_of ip_info k = Some v
            \<longrightarrow> map_of (export_to_json env ip_info additional_info) k = Some v)
   \<and> map_of (export_to_json env ip_info additional_info) ''timestamp'' = Some (JStr (now env))
   \<and> map_of (export_to_json env ip_info additional_info) ''additional_info''
       = (if add_truthy additional_info then Some (JObj (add_dict additional_info)) else None)
   \<and> map fst (export_to_json env ip_info additional_info)
       = map fst ip_info @ (if add_truthy additional_info then [''additional_info''] else [])
         @ [''timestamp'']"
proof -
  note fresh = geo_record_fresh [OF assms]
  from fresh have none: "map_of ip_info ''timestamp'' = None" "map_of ip_info ''additional_info'' = None"
    by (simp_all add: map_of_eq_None_iff)
  have 1: "map_of (export_to_json env ip_info additional_info) k = Some v"
    if "map_of ip_info k = Some v" for k v
    using that by (simp add: export_to_json_appends [OF assms] map_add_Some_iff)
  have 2: "map_of (export_to_json env ip_info additional_info) ''timestamp'' = Some (JStr (now env))"
    using none by (simp add: export_to_json_appends [OF assms] map_add_def)
  have 3: "map_of (export_to_json env ip_info additional_info) ''additional_info''
       = (if add_truthy additional_info then Some (JObj (add_dict additional_info)) else None)"
    using none by (simp add: export_to_json_appends [OF assms] map_add_def)
  have 4: "map fst (export_to_json env ip_info additional_info)
       = map fst ip_info @ (if add_truthy additional_info then [''additional_info''] else [])
         @ [''timestamp'']"
    by (simp add: export_to_json_appends [OF assms])
  from 1 2 3 4 show ?thesis by blast
qed

lemma example_geo_record: "geo_record example_geo"
  by (simp add: geo_record_def example_geo_def geo_fields_list)

theorem export_to_json_round_trip_witness:
  "geo_record example_geo
   \<and> map_of example_geo ''query'' = Some (JStr ''8.8.8.8'')
   \<and> map_of (export_to_json example_env example_geo (Some example_enrichment)) ''query''
       = Some (JStr ''8.8.8.8'')
   \<and> map_of (export_to_json example_env example_geo (Some example_enrichment)) ''timestamp''
       = Some (JStr ''2024-01-01 12:00:00'')
   \<and> map_of (export_to_json example_env example_geo (Some example_enrichment)) ''additional_info''
       = Some (JObj example_enrichment)
   \<and> map_of (export_to_json example_env example_geo None) ''additional_info'' = None
   \<and> map fst (export_to_json example_env example_geo (Some example_enrichment))
       = [''status'', ''countryCode'', ''proxy'', ''query'', ''additional_info'', ''timestamp'']"
proof -
  have q: "map_of example_geo ''query'' = Some (JStr ''8.8.8.8'')"
    by (simp add: example_geo_def)
  have t: "add_truthy (Some example_enrichment)" "\<not> add_truthy None"
    by (simp_all add: add_truthy_def example_enrichment_def)
  from export_to_json_round_trip [OF example_geo_record, of example_env "Some example_enrichment"]
       export_to_json_round_trip [OF example_geo_record, of example_env None] q t
  show ?thesis
    by (simp add: example_geo_record add_dict_def) (simp add: example_env_def example_geo_def)
qed

section \<open>Properties of the CSV exporter\<close>

lemma geo_record_no_prefixed_key:
  assumes "geo_record ip_info"
  shows "''additional_'' @ k \<notin> set (map fst ip_info)"
  by (rule geo_record_keys [OF assms]) (simp add: geo_fields_list)

lemma flatten_into_appends:
  "distinct (map fst items) \<Longrightarrow>
   \<forall>k \<in> set (map fst items). ''additional_'' @ k \<notin> set (map fst flat) \<Longrightarrow>
   flatten_into flat items =
     flat @ map (\<lambda>(k, v). (''additional_'' @ k,
                             case v of JObj kvs \<Rightarrow> JStr (flat_value kvs) | _ \<Rightarrow> v)) items"
proof (induction items arbitrary: flat)
  case Nil
  show ?case by simp
next
  case (Cons item items)
  obtain key v where item: "item = (key, v)" by (cases item)
  let ?cell = "case v of JObj kvs \<Rightarrow> JStr (flat_value kvs) | _ \<Rightarrow> v"
  from Cons.prems(2) have fresh: "''additional_'' @ key \<notin> set (map fst flat)"
    by (simp add: item)
  have upd: "AList.update (''additional_'' @ key) ?cell flat = flat @ [(''additional_'' @ key, ?cell)]"
    by (rule update_fresh [OF fresh])
  from Cons.prems have d: "distinct (map fst items)"
    and next_fresh: "\<forall>k \<in> set (map fst items).
           ''additional_'' @ k \<notin> set (map fst (flat @ [(''additional_'' @ key, ?cell)]))"
    by (auto simp: item)
  have "flatten_into flat (item # items)
          = flatten_into (flat @ [(''additional_'' @ key, ?cell)]) items"
    by (simp only: item flatten_into.simps upd)
  also have "\<dots> = (flat @ [(''additional_'' @ key, ?cell)])
       @ map (\<lambda>(k, v). (''additional_'' @ k,
                             case v of JObj kvs \<Rightarrow> JStr (flat_value kvs) | _ \<Rightarrow> v)) items"
    by (rule Cons.IH [OF d next_fresh])
  finally show ?case by (simp add: item)
qed

lemma flat_data_appends:
  assumes "geo_record ip_info" and "distinct (map fst (add_dict additional_info))"
  shows "flat_data env ip_info additional_info =
           ip_info
           @ map (\<lambda>(k, v). (''additional_'' @ k,
                              case v of JObj kvs \<Rightarrow> JStr (flat_value kvs) | _ \<Rightarrow> v))
               (add_dict additional_info)
           @ [(''timestamp'', JStr (now env))]"
proof -
  let ?cells = "map (\<lambda>(k, v). (''additional_'' @ k,
                              case v of JObj kvs \<Rightarrow> JStr (flat_value kvs) | _ \<Rightarrow> v))
               (add_dict additional_info)"
  have body: "(if add_truthy additional_info then flatten_into ip_info (add_dict additional_info)
               else ip_info) = ip_info @ ?cells"
  proof (cases "add_truthy additional_info")
    case True
    have "\<forall>k \<in> set (map fst (add_dict additional_info)).
            ''additional_'' @ k \<notin> set (map fst ip_info)"
      using geo_record_no_prefixed_key [OF assms(1)] by blast
    from flatten_into_appends [OF assms(2) this] True show ?thesis by simp
  next
    case False
    then have "add_dict additional_info = []"
      by (cases additional_info) (auto simp: add_truthy_def add_dict_def)
    with False show ?thesis by simp
  qed
  have "''timestamp'' \<notin> set (map fst (ip_info @ ?cells))"
    using geo_record_fresh(1) [OF assms(1)] by auto
  from update_fresh [OF this] body show ?thesis
    by (simp add: flat_data_def)
qed

text \<open>
  Claim C8, as the code has it: for a GeoRecord and an enrichment (a dictionary, possibly
  absent or empty), \<^verbatim>\<open>export_to_csv\<close> writes two rows of the same length, a header row
  and a data row. The columns are the fields of the GeoRecord, then one column
  \<^verbatim>\<open>additional_\<close>\<open>key\<close> for each field of the enrichment, then \<^verbatim>\<open>timestamp\<close>. A
  mapping-valued enrichment field becomes one string, its items joined by a comma and a
  space; an item is \<open>key: value\<close> when the value is a string and the key alone otherwise.
\<close>

theorem export_to_csv_rows:
  assumes "geo_record ip_info" and "distinct (map fst (add_dict additional_info))"
  shows "export_to_csv env ip_info additional_info =
     [map fst ip_info
        @ map (\<lambda>(k, v). ''additional_'' @ k) (add_dict additional_info)
        @ [''timestamp''],
      map (\<lambda>(k, v). csv_cell env v) ip_info
        @ map (\<lambda>(k, v). case v of
                  JObj kvs \<Rightarrow>
                    join_with '', ''
                      (map (\<lambda>(k', v'). case v' of JStr s \<Rightarrow> k' @ '': '' @ s | _ \<Rightarrow> k') kvs)
                | _ \<Rightarrow> csv_cell env v) (add_dict additional_info)
        @ [now env]]"
proof -
  have cell: "csv_cell env (case v of JObj kvs \<Rightarrow> JStr (flat_value kvs) | _ \<Rightarrow> v) =
      (case v of
         JObj kvs \<Rightarrow>
           join_with '', ''
             (map (\<lambda>(k', v'). case v' of JStr s \<Rightarrow> k' @ '': '' @ s | _ \<Rightarrow> k') kvs)
       | _ \<Rightarrow> csv_cell env v)" for v
    by (cases v) (simp_all add: csv_cell_def py_str_def flat_value_def)
  have str: "csv_cell env (JStr s) = s" for s
    by (simp add: csv_cell_def py_str_def)
  show ?thesis
    by (simp add: export_to_csv_def flat_data_appends [OF assms] split_beta cell str o_def)
qed

lemma example_enrichment_distinct: "distinct (map fst (add_dict (Some example_enrichment)))"
  by (simp add: add_dict_def example_enrichment_def)

theorem export_to_csv_rows_witness:
  "geo_record example_geo \<and> distinct (map fst (add_dict (Some example_enrichment)))
   \<and> export_to_csv example_env example_geo (Some example_enrichment) =
       [[''status'', ''countryCode'', ''proxy'', ''query'', ''additional_population'',
         ''additional_capital'', ''additional_currencies'', ''additional_languages'',
         ''additional_flag'', ''additional_region'', ''additional_subregion'', ''timestamp''],
        [''success'', ''US'', ''False'', ''8.8.8.8'', ''1000'', ''Springfield'', ''USD, EUR'',
         ''eng: English'', ''https://flags.example/us.png'', ''Americas'', [],
         ''2024-01-01 12:00:00'']]"
proof -
  have n: "show_digits 1000 = ''1000''" by code_simp
  from export_to_csv_rows [OF example_geo_record example_enrichment_distinct, of example_env]
  show ?thesis
    by (simp add: example_geo_record example_enrichment_distinct)
       (simp add: example_geo_def example_enrichment_def example_currencies_def add_dict_def
          csv_cell_def py_str_def show_int_def n example_env_def)
qed

text \<open>Claim C8 as stated fails: the value of a currency is an object, not a string, so the
  cell of the currencies holds the codes only, not pairs \<open>key: value\<close>.\<close>

theorem export_to_csv_currencies_counterexample:
  "map_of (flat_data example_env example_geo (Some example_enrichment)) ''additional_currencies''
     = Some (JStr ''USD, EUR'')
   \<and> ''USD, EUR''
       \<noteq> spec_flat_value example_env
            [(''USD'', JObj [(''name'', JStr ''US Dollar'')]), (''EUR'', JObj [(''name'', JStr ''Euro'')])]"
  by (simp add: flat_data_def add_truthy_def add_dict_def example_enrichment_def example_geo_def
        example_currencies_def flat_value_def spec_flat_value_def)

section \<open>Properties of the terminal renderer\<close>

subsection \<open>The visible text of a line\<close>


lemma strip_inside:
  "CHR ''m'' \<notin> set code \<Longrightarrow> strip_escapes True (code @ CHR ''m'' # rest) = strip_escapes False rest"
  by (induction code) auto

lemma visible_esc: "CHR ''m'' \<notin> set code \<Longrightarrow> visible (esc code @ rest) = visible rest"
  by (simp add: visible_def esc_def strip_inside)

lemma visible_colour:
  "visible (GREEN env @ rest) = visible rest"
  "visible (BLUE env @ rest) = visible rest"
  "visible (YELLOW env @ rest) = visible rest"
  "visible (RED env @ rest) = visible rest"
  "visible (ENDC env @ rest) = visible rest"
  "visible (BOLD env @ rest) = visible rest"
  "visible (BG_BLUE env @ rest) = visible rest"
  by (simp_all add: GREEN_def BLUE_def YELLOW_def RED_def ENDC_def BOLD_def BG_BLUE_def visible_esc)

lemma visible_colour_end:
  "visible (GREEN env) = []"
  "visible (ENDC env) = []"
  using visible_colour(1) [of env "[]"] visible_colour(5) [of env "[]"]
  by (simp_all add: visible_def)

lemma visible_plain: "CHR 0x1B \<notin> set s \<Longrightarrow> visible (s @ rest) = s @ visible rest"
  by (induction s) (auto simp: visible_def)

lemma spaces_plain: "CHR 0x1B \<notin> set (spaces n)"
  by (simp add: spaces_def)

lemma length_spaces: "length (spaces n) = nat n"
  by (simp add: spaces_def)

lemma visible_row:
  assumes "CHR 0x1B \<notin> set label" "CHR 0x1B \<notin> set text"
  shows "visible (row env label text pad) = box_v # '' '' @ label @ '' '' @ text @ spaces pad @ '' '' @ [box_v]"
proof -
  have 1: "visible (ENDC env @ '' '' @ text @ spaces pad @ '' '' @ GREEN env @ [box_v] @ ENDC env)
            = '' '' @ text @ spaces pad @ '' '' @ [box_v]"
    using assms(2) spaces_plain [of pad]
    by (simp add: visible_colour visible_plain visible_colour_end
          visible_plain [of "[c]" for c, simplified] box_v_def)
  show ?thesis
    unfolding row_def
    using assms(1) 1
    by (simp add: visible_colour visible_plain [of "[c]" for c, simplified] visible_plain box_v_def)
qed

lemma visible_title_row:
  assumes "CHR 0x1B \<notin> set title"
  shows "visible (title_row env title pad) = box_v # '' '' @ title @ spaces pad @ '' '' @ [box_v]"
proof -
  have 1: "visible (ENDC env @ '' '' @ GREEN env @ [box_v] @ ENDC env) = '' '' @ [box_v]"
    by (simp add: visible_colour visible_colour_end visible_plain [of "[c]" for c, simplified] box_v_def)
  have 2: "visible (title @ spaces pad @ ENDC env @ '' '' @ GREEN env @ [box_v] @ ENDC env)
             = title @ spaces pad @ '' '' @ [box_v]"
    using assms spaces_plain [of pad] 1 by (simp add: visible_plain)
  show ?thesis
    unfolding title_row_def using 2
    by (simp add: visible_colour visible_plain [of "[c]" for c, simplified] box_v_def)
qed

lemma visible_border:
  assumes "l \<noteq> CHR 0x1B" "r \<noteq> CHR 0x1B"
  shows "visible (border env l r width) = l # replicate (nat (width - 2)) box_h @ [r]"
proof -
  have "CHR 0x1B \<notin> set (replicate (nat (width - 2)) box_h)"
    by (simp add: box_h_def)
  then show ?thesis
    unfolding border_def using assms
    by (simp add: visible_colour visible_colour_end visible_plain
          visible_plain [of "[c]" for c, simplified])
qed

lemma example_env_fields:
  "simple example_env = False" "terminal_columns example_env = Inr 84"
  by (simp_all add: example_env_def)

subsection \<open>A failed lookup\<close>

text \<open>
  Claim C6: for a record whose status is not \<^verbatim>\<open>success\<close>, \<^verbatim>\<open>display_ip_info\<close> prints one
  line and returns: the word \<^verbatim>\<open>Error:\<close> and the message of the record, or
  \<^verbatim>\<open>Unknown error\<close> when the record has none. It prints no banner, no box and no trailer.
\<close>

theorem display_ip_info_failed_lookup:
  assumes "get ip_info ''status'' \<noteq> JStr ''success''"
  shows "display_ip_info env ip_info additional_info =
           ([RED env @ ''Error: ''
               @ py_str env (get_default ip_info ''message'' (JStr ''Unknown error'')) @ ENDC env],
            None)"
  using assms by (simp add: display_ip_info_def error_line_def)

theorem display_ip_info_failed_lookup_witness:
  "get [(''status'', JStr ''fail''), (''message'', JStr ''invalid query'')] ''status'' \<noteq> JStr ''success''
   \<and> display_ip_info example_env [(''status'', JStr ''fail''), (''message'', JStr ''invalid query'')] None
       = ([esc ''91'' @ ''Error: invalid query'' @ esc ''0''], None)
   \<and> get [(''status'', JStr ''fail'')] ''status'' \<noteq> JStr ''success''
   \<and> display_ip_info example_env [(''status'', JStr ''fail'')] (Some example_enrichment)
       = ([esc ''91'' @ ''Error: Unknown error'' @ esc ''0''], None)"
proof -
  have a: "get [(''status'', JStr ''fail''), (''message'', JStr ''invalid query'')] ''status''
             \<noteq> JStr ''success''"
    by (simp add: get_def get_default_def)
  have b: "get [(''status'', JStr ''fail'')] ''status'' \<noteq> JStr ''success''"
    by (simp add: get_def get_default_def)
  from display_ip_info_failed_lookup [OF a, of example_env None]
       display_ip_info_failed_lookup [OF b, of example_env "Some example_enrichment"] a b
  show ?thesis
    by (simp add: get_default_def py_str_def RED_def ENDC_def example_env_def)
qed

subsection \<open>The widths of the lines of the box\<close>

lemma ex_location:
  "location_stmts example_env example_geo 80 =
     [Inr [], Inr [border example_env box_dr box_dl 80], Inr [row example_env ''Location:'' [] 69],
      Inr [], Inr [], Inr [], Inr [], Inr [], Inr [], Inr []]"
  by (simp add: example_geo_def get_def get_default_def location_stmts_def when_stmt_def
        location_def location_parts_def py_join_def text_row_def offset_stmt_def time_stmt_def
        time_info_def has_key_def)

lemma ex_additional:
  "additional_stmts example_env example_geo None 80 =
     [Inr [border example_env box_vr box_vl 80],
      Inr [title_row example_env ''Additional Information'' 57],
      Inr [border example_env box_vr box_vl 80],
      Inr [row example_env ''Using Proxy:'' ''No'' 63],
      Inr [], Inr [], Inr [], Inr [], Inr [], Inr []]"
  by (simp add: example_geo_def get_def get_default_def additional_stmts_def when_stmt_def
        text_row_def additional_gate_def add_truthy_def yes_no_def currencies_stmt_def
        languages_stmt_def)

lemma ex_network:
  "network_stmts example_env example_geo 80 =
     [Inr [border example_env box_vr box_vl 80],
      Inr [title_row example_env ''Network Information'' 59],
      Inr [border example_env box_vr box_vl 80],
      Inr [], Inr [], Inr [], Inr [], Inr [],
      Inr [border example_env box_ur box_ul 80]]"
  by (simp add: example_geo_def get_def get_default_def network_stmts_def when_stmt_def
        wrapped_field_def)

lemma ex_trailer: "trailer_stmts example_env example_geo None = [Inr [], Inr []]"
  by (simp add: example_geo_def trailer_stmts_def when_stmt_def has_key_def add_truthy_def)

lemma ex_header:
  "\<exists>h1 h2 h3. header_stmts example_env example_geo 80 = [Inr [h1], Inr [h2], Inr [h3]]"
  by (simp add: example_geo_def header_stmts_def subscript_def Let_def)

lemma example_box:
  "drop 3 (fst (display_ip_info example_env example_geo None)) =
      [border example_env box_dr box_dl 80,
       row example_env ''Location:'' [] 69,
       border example_env box_vr box_vl 80,
       title_row example_env ''Additional Information'' 57,
       border example_env box_vr box_vl 80,
       row example_env ''Using Proxy:'' ''No'' 63,
       border example_env box_vr box_vl 80,
       title_row example_env ''Network Information'' 59,
       border example_env box_vr box_vl 80,
       border example_env box_ur box_ul 80]"
proof -
  from ex_header obtain h1 h2 h3 where
    h: "header_stmts example_env example_geo 80 = [Inr [h1], Inr [h2], Inr [h3]]" by blast
  have s: "get example_geo ''status'' = JStr ''success''"
    by (simp add: example_geo_def get_def get_default_def)
  have w: "box_width 84 = 80" by (simp add: box_width_def)
  show ?thesis
    by (simp add: display_ip_info_def s example_env_fields w h ex_location ex_additional
          ex_network ex_trailer)
qed

text \<open>
  Claim C1 at a concrete input: a terminal of 84 columns, so that the computed width is 80,
  and the record \<^verbatim>\<open>{status: success, countryCode: US, proxy: false, query: 8.8.8.8}\<close>
  without enrichment. After the three lines of the banner, the renderer prints the ten
  lines of the box, and their visible lengths are not all 80: the borders have 80
  characters, the location row and the title of the additional information 83, the proxy
  row and the title of the network information 82.
\<close>

theorem display_ip_info_box_widths:
  "box_width 84 = 80
   \<and> map (\<lambda>line. length (visible line))
         (drop 3 (fst (display_ip_info example_env example_geo None)))
       = [80, 83, 80, 83, 80, 82, 80, 82, 80, 80]"
  by (simp add: box_width_def example_box visible_border visible_row visible_title_row
        length_spaces box_dr_def box_dl_def box_vr_def box_vl_def box_ur_def box_ul_def)

subsection \<open>Which sections are printed\<close>

lemma run_stmts_complete:
  "snd (run_stmts ss) = None \<Longrightarrow> Inr ls \<in> set ss \<Longrightarrow> set ls \<subseteq> set (fst (run_stmts ss))"
proof (induction ss)
  case Nil
  then show ?case by simp
next
  case (Cons s ss)
  show ?case
  proof (cases s)
    case (Inl e)
    with Cons.prems show ?thesis by simp
  next
    case (Inr ls')
    obtain out err where r: "run_stmts ss = (out, err)" by (cases "run_stmts ss")
    with Cons.prems(1) Inr have err: "err = None" by simp
    show ?thesis
    proof (cases "Inr ls \<in> set ss")
      case True
      with Cons.IH r err have "set ls \<subseteq> set out" by simp
      with Inr r show ?thesis by auto
    next
      case False
      with Cons.prems(2) Inr have "ls = ls'" by simp
      with Inr r show ?thesis by auto
    qed
  qed
qed

lemma run_stmts_lines:
  "l \<in> set (fst (run_stmts ss)) \<Longrightarrow> \<exists>ls. Inr ls \<in> set ss \<and> l \<in> set ls"
proof (induction ss)
  case Nil
  then show ?case by simp
next
  case (Cons s ss)
  show ?case
  proof (cases s)
    case (Inl e)
    with Cons.prems show ?thesis by simp
  next
    case (Inr ls')
    obtain out err where r: "run_stmts ss = (out, err)" by (cases "run_stmts ss")
    with Cons.prems Inr have "l \<in> set ls' \<or> l \<in> set out" by auto
    then show ?thesis
    proof
      assume "l \<in> set ls'"
      with Inr show ?thesis by auto
    next
      assume "l \<in> set out"
      with Cons.IH r obtain ls where "Inr ls \<in> set ss" "l \<in> set ls" by auto
      then show ?thesis by auto
    qed
  qed
qed

lemma is_prefix_append: "is_prefix p (p @ rest)"
  by (induction p) auto

lemma visible_Cons:
  "visible (c # rest) = (if CHR 0x1B = c then strip_escapes True rest else c # visible rest)"
  by (auto simp: visible_def)

lemma title_row_is_title:
  assumes "CHR 0x1B \<notin> set title"
  shows "is_title_of title (title_row env title pad)"
  using is_prefix_append [of "box_v # '' '' @ title" "spaces pad @ '' '' @ [box_v]"]
  by (simp add: is_title_of_def visible_title_row [OF assms])

lemma row_not_title:
  assumes "CHR 0x1B \<notin> set (a # b # cs)" and "(a, b) \<noteq> (CHR ''A'', CHR ''d'')"
  shows "\<not> is_title_of ''Additional Information'' (row env (a # b # cs) text pad)"
proof -
  from assms(1) have "visible (row env (a # b # cs) text pad)
      = box_v # CHR '' '' # a # b # visible (cs @ ENDC env @ '' '' @ text @ spaces pad
                                              @ '' '' @ GREEN env @ [box_v] @ ENDC env)"
    by (simp add: row_def visible_colour visible_Cons box_v_def)
  with assms(2) show ?thesis by (auto simp: is_title_of_def)
qed

lemma cont_row_not_title:
  assumes "CHR 0x1B \<notin> set cs"
  shows "\<not> is_title_of ''Additional Information'' (cont_row env (CHR '' '' # CHR '' '' # cs) line pad)"
proof -
  have "visible (cont_row env (CHR '' '' # CHR '' '' # cs) line pad)
      = box_v # CHR '' '' # CHR '' '' # visible (cs @ line @ spaces pad @ '' '' @ GREEN env @ [box_v] @ ENDC env)"
    by (simp add: cont_row_def visible_colour visible_Cons box_v_def)
  then show ?thesis by (simp add: is_title_of_def)
qed

lemma border_not_title:
  assumes "l \<noteq> CHR 0x1B" "l \<noteq> box_v"
  shows "\<not> is_title_of title (border env l r width)"
proof -
  from assms(1) have "visible (border env l r width)
      = l # visible (replicate (nat (width - 2)) box_h @ [r] @ ENDC env)"
    by (simp add: border_def visible_colour visible_Cons)
  with assms(2) show ?thesis by (simp add: is_title_of_def)
qed

lemma title_row_not_other:
  assumes "CHR 0x1B \<notin> set (a # cs)" and "a \<noteq> CHR ''A''"
  shows "\<not> is_title_of ''Additional Information'' (title_row env (a # cs) pad)"
proof -
  from assms(1) have "visible (title_row env (a # cs) pad)
      = box_v # CHR '' '' # a # visible (cs @ spaces pad @ ENDC env @ '' '' @ GREEN env @ [box_v] @ ENDC env)"
    by (simp add: title_row_def visible_colour visible_Cons box_v_def)
  with assms(2) show ?thesis by (simp add: is_title_of_def)
qed

lemma spaces_not_title: "\<not> is_prefix (box_v # p) (spaces n @ [newline])"
  by (cases "nat n") (simp_all add: spaces_def box_v_def newline_def)

lemma header_not_title:
  assumes "Inr ls \<in> set (header_stmts env ip_info width)" and "l \<in> set ls"
  shows "\<not> is_title_of title l"
proof -
  have 3: "visible (spaces width @ ENDC env @ [CHR 0x0A]) = spaces width @ [CHR 0x0A]"
    using spaces_plain [of width]
    by (simp add: visible_plain visible_colour visible_Cons) (simp add: visible_def)
  from assms show ?thesis
    by (auto simp: header_stmts_def Let_def is_title_of_def visible_colour visible_Cons
          newline_def box_v_def 3 spaces_not_title [unfolded newline_def box_v_def]
          split: sum.splits)
qed

lemma trailer_not_title:
  assumes "Inr ls \<in> set (trailer_stmts env ip_info additional_info)" and "l \<in> set ls"
  shows "\<not> is_title_of title l"
  using assms
  by (auto simp: trailer_stmts_def when_stmt_def is_title_of_def visible_colour visible_Cons
        newline_def box_v_def split: if_splits)

lemma local_time_not_title:
  "\<not> is_title_of ''Additional Information''
       (GREEN env @ [box_v] @ '' '' @ BLUE env @ ''Local Time:'' @ rest)"
  by (simp add: is_title_of_def visible_colour visible_Cons box_v_def)

lemma no_title_simps:
  "no_title title (Inl e)"
  "no_title title (Inr [])"
  "no_title title (Inr [l]) = (\<not> is_title_of title l)"
  by (simp_all add: no_title_def)

lemma no_title_single: "\<not> is_title_of title l \<Longrightarrow> no_title title (Inr [l])"
  by (simp add: no_title_def)

lemma no_title_when: "no_title title s \<Longrightarrow> no_title title (when_stmt c s)"
  by (simp add: when_stmt_def no_title_simps)

lemma no_title_text_row:
  "\<not> is_title_of title (row env label body (room - int (length body))) \<Longrightarrow>
   no_title title (text_row env label body room)"
  by (simp add: text_row_def no_title_simps)

lemma no_title_raw_row:
  "(\<And>pad. \<not> is_title_of title (row env label (py_str env v) pad)) \<Longrightarrow>
   no_title title (raw_row env label v room)"
  by (simp add: raw_row_def no_title_simps split: sum.splits)

lemma no_title_wrapped_rows:
  "(\<And>x. \<not> is_title_of title (first_row x)) \<Longrightarrow> (\<And>x. \<not> is_title_of title (other_row x)) \<Longrightarrow>
   no_title title (wrapped_rows filled first_row other_row)"
  by (auto simp: wrapped_rows_def no_title_def list_all_iff split: sum.splits list.splits)

lemma no_title_case:
  "(\<And>x. no_title title (f x)) \<Longrightarrow> no_title title (case r of Inl e \<Rightarrow> Inl e | Inr x \<Rightarrow> f x)"
  by (simp add: no_title_simps split: sum.splits)

lemma no_title_output:
  assumes "list_all (no_title title) ss" and "l \<in> set (fst (run_stmts ss))"
  shows "\<not> is_title_of title l"
proof -
  from run_stmts_lines [OF assms(2)] obtain ls where "Inr ls \<in> set ss" "l \<in> set ls" by blast
  with assms(1) show ?thesis by (auto simp: list_all_iff no_title_def)
qed

lemma location_no_title:
  "list_all (no_title ''Additional Information'') (location_stmts env ip_info width)"
proof -
  have t: "no_title ''Additional Information'' (time_stmt env ip_info width)"
    unfolding time_stmt_def Let_def
    by (intro no_title_when no_title_wrapped_rows local_time_not_title cont_row_not_title) simp
  have o: "no_title ''Additional Information'' (offset_stmt env ip_info width)"
    unfolding offset_stmt_def
    by (intro no_title_when no_title_case no_title_text_row) (simp add: row_not_title)
  show ?thesis
    unfolding location_stmts_def
    by (simp add: t o no_title_simps no_title_when no_title_text_row no_title_raw_row
          no_title_case row_not_title border_not_title box_dr_def box_v_def)
qed

lemma header_no_title: "list_all (no_title title) (header_stmts env ip_info width)"
  by (auto simp: list_all_iff no_title_def split: sum.splits dest: header_not_title)

lemma trailer_no_title: "list_all (no_title title) (trailer_stmts env ip_info additional_info)"
  by (auto simp: list_all_iff no_title_def split: sum.splits dest: trailer_not_title)

lemma as_row_not_title:
  "\<not> is_title_of ''Additional Information''
       (GREEN env @ [box_v] @ '' '' @ BOLD env @ ''AS:'' @ rest)"
  by (simp add: is_title_of_def visible_colour visible_Cons box_v_def)

lemma wrapped_field_no_title:
  assumes "CHR 0x1B \<notin> set (a # b # cs)" and "(a, b) \<noteq> (CHR ''A'', CHR ''d'')"
    and "CHR 0x1B \<notin> set ind"
  shows "no_title ''Additional Information''
           (wrapped_field env ip_info key (a # b # cs) (CHR '' '' # CHR '' '' # ind) wrap_width room)"
  unfolding wrapped_field_def
  by (intro no_title_when no_title_wrapped_rows row_not_title cont_row_not_title assms)

lemma network_no_title:
  "list_all (no_title ''Additional Information'') (network_stmts env ip_info width)"
proof -
  have a: "no_title ''Additional Information''
     (when_stmt (truthy (get ip_info ''as''))
        (wrapped_rows (py_fill env (get ip_info ''as'') (width - 8))
           (\<lambda>line. GREEN env @ [box_v] @ '' '' @ BOLD env @ ''AS:'' @ ENDC env @ ''  '' @ line
                     @ spaces (width - 6 - int (length line)) @ '' '' @ GREEN env @ [box_v] @ ENDC env)
           (\<lambda>line. cont_row env ''      '' line (width - 6 - int (length line)))))"
    by (intro no_title_when no_title_wrapped_rows as_row_not_title cont_row_not_title) simp
  show ?thesis
    unfolding network_stmts_def list_all_Cons_iff list_all_Nil_iff
    by (intro conjI TrueI a wrapped_field_no_title no_title_single border_not_title
          title_row_not_other)
       (simp_all add: box_vr_def box_ur_def box_v_def)
qed

lemma display_success:
  assumes "get ip_info ''status'' = JStr ''success''" and "terminal_columns env = Inr columns"
  shows "display_ip_info env ip_info additional_info =
     run_stmts (header_stmts env ip_info (box_width columns)
                @ location_stmts env ip_info (box_width columns)
                @ additional_stmts env ip_info additional_info (box_width columns)
                @ network_stmts env ip_info (box_width columns)
                @ trailer_stmts env ip_info additional_info)"
  using assms by (simp add: display_ip_info_def)

lemma additional_title_only_if_gate:
  assumes "get ip_info ''status'' = JStr ''success''" and "terminal_columns env = Inr columns"
    and "\<not> additional_gate ip_info additional_info"
    and "l \<in> set (fst (display_ip_info env ip_info additional_info))"
  shows "\<not> is_title_of ''Additional Information'' l"
proof -
  have "list_all (no_title ''Additional Information'')
     (header_stmts env ip_info (box_width columns)
      @ location_stmts env ip_info (box_width columns)
      @ additional_stmts env ip_info additional_info (box_width columns)
      @ network_stmts env ip_info (box_width columns)
      @ trailer_stmts env ip_info additional_info)"
    using assms(3)
    by (simp add: header_no_title location_no_title network_no_title trailer_no_title
          additional_stmts_def)
  from no_title_output [OF this] assms(4) show ?thesis
    by (simp add: display_success [OF assms(1,2)])
qed

lemma printed_when_complete:
  assumes "get ip_info ''status'' = JStr ''success''" and "terminal_columns env = Inr columns"
    and "snd (display_ip_info env ip_info additional_info) = None"
    and "Inr [l] \<in> set (header_stmts env ip_info (box_width columns)
                @ location_stmts env ip_info (box_width columns)
                @ additional_stmts env ip_info additional_info (box_width columns)
                @ network_stmts env ip_info (box_width columns)
                @ trailer_stmts env ip_info additional_info)"
  shows "l \<in> set (fst (display_ip_info env ip_info additional_info))"
  using run_stmts_complete [OF assms(3) [unfolded display_success [OF assms(1,2)]] assms(4)]
  by (simp add: display_success [OF assms(1,2)])

lemma location_completes:
  assumes "get ip_info ''status'' = JStr ''success''" and "terminal_columns env = Inr columns"
    and "snd (display_ip_info env ip_info additional_info) = None"
  shows "\<exists>loc. location env ip_info = Inr loc"
proof (cases "location env ip_info")
  case (Inl e)
  have "run_stmts (Inl e # rest) = ([], Some e)" for rest by simp
  with assms(3) Inl show ?thesis
    by (simp add: display_success [OF assms(1,2)] header_stmts_def location_stmts_def
          split: sum.splits prod.splits)
next
  case (Inr loc)
  then show ?thesis by blast
qed

lemma query_completes:
  assumes "get ip_info ''status'' = JStr ''success''" and "terminal_columns env = Inr columns"
    and "snd (display_ip_info env ip_info additional_info) = None"
  shows "\<exists>query. subscript ip_info ''query'' = Inr query"
proof (cases "subscript ip_info ''query''")
  case (Inl e)
  have "run_stmts (Inl e # rest) = ([], Some e)" for rest by simp
  with assms(3) Inl show ?thesis
    by (simp add: display_success [OF assms(1,2)] header_stmts_def split: prod.splits)
next
  case (Inr query)
  then show ?thesis by blast
qed

lemma example_geo_success: "get example_geo ''status'' = JStr ''success''"
  by (simp add: example_geo_def get_def get_default_def)

lemma run_stmts_all_printed: "list_all (\<lambda>s. \<not> isl s) ss \<Longrightarrow> snd (run_stmts ss) = None"
proof (induction ss)
  case Nil
  show ?case by simp
next
  case (Cons s ss)
  then show ?case by (cases s) (auto split: prod.splits)
qed

lemma example_complete_without:
  "snd (display_ip_info example_env example_geo None) = None"
proof -
  from ex_header obtain h1 h2 h3 where
    h: "header_stmts example_env example_geo 80 = [Inr [h1], Inr [h2], Inr [h3]]" by blast
  have w: "box_width 84 = 80" by (simp add: box_width_def)
  show ?thesis
    by (simp add: display_success [OF example_geo_success example_env_fields(2)] w h ex_location
          ex_additional ex_network ex_trailer)
qed

text \<open>
  Claim C5, as the code has it, for a record with status \<^verbatim>\<open>success\<close>. Only the block
  of the additional information is conditional: without a proxy, hosting or mobile flag
  and without enrichment, the renderer prints what the banner, the location block, the
  network block and the trailer print, and no line is the title
  \<^verbatim>\<open>Additional Information\<close>. When the renderer completes, it has printed that title if one
  of the flags or the enrichment is there, and in every case the three lines of the header
  banner (a blank coloured line, the line with the address, a blank coloured line), the top
  border, the location row (with the location, which may be empty), the title
  \<^verbatim>\<open>Network Information\<close> and the bottom border.
\<close>

theorem display_ip_info_sections:
  assumes "get ip_info ''status'' = JStr ''success''" and "terminal_columns env = Inr columns"
  shows "(\<not> additional_gate ip_info additional_info \<longrightarrow>
            display_ip_info env ip_info additional_info =
              run_stmts (header_stmts env ip_info (box_width columns)
                         @ location_stmts env ip_info (box_width columns)
                         @ network_stmts env ip_info (box_width columns)
                         @ trailer_stmts env ip_info additional_info)
            \<and> (\<forall>l \<in> set (fst (display_ip_info env ip_info additional_info)).
                  \<not> is_title_of ''Additional Information'' l))
   \<and> (snd (display_ip_info env ip_info additional_info) = None \<longrightarrow>
        (additional_gate ip_info additional_info \<longrightarrow>
           title_row env ''Additional Information'' (box_width columns - 23)
             \<in> set (fst (display_ip_info env ip_info additional_info)))
        \<and> [newline] @ BG_BLUE env @ BOLD env @ spaces (box_width columns) @ ENDC env
              \<in> set (fst (display_ip_info env ip_info additional_info))
        \<and> (\<exists>query. subscript ip_info ''query'' = Inr query
                  \<and> BG_BLUE env @ BOLD env @ (''  IP: '' @ py_str env query @ ''  '')
                      @ spaces (box_width columns
                                - int (length (''  IP: '' @ py_str env query @ ''  ''))
                                + int (length (BG_BLUE env @ BOLD env @ ENDC env)))
                      @ ENDC env
                        \<in> set (fst (display_ip_info env ip_info additional_info)))
        \<and> BG_BLUE env @ BOLD env @ spaces (box_width columns) @ ENDC env @ [newline]
              \<in> set (fst (display_ip_info env ip_info additional_info))
        \<and> border env box_dr box_dl (box_width columns)
              \<in> set (fst (display_ip_info env ip_info additional_info))
        \<and> (\<exists>loc. location env ip_info = Inr loc
                  \<and> row env ''Location:'' loc (box_width columns - 11 - int (length loc))
                        \<in> set (fst (display_ip_info env ip_info additional_info)))
        \<and> title_row env ''Network Information'' (box_width columns - 21)
              \<in> set (fst (display_ip_info env ip_info additional_info))
        \<and> border env box_ur box_ul (box_width columns)
              \<in> set (fst (display_ip_info env ip_info additional_info)))"
proof -
  let ?w = "box_width columns"
  let ?out = "fst (display_ip_info env ip_info additional_info)"
  have closed: "display_ip_info env ip_info additional_info =
              run_stmts (header_stmts env ip_info ?w @ location_stmts env ip_info ?w
                         @ network_stmts env ip_info ?w @ trailer_stmts env ip_info additional_info)"
    if "\<not> additional_gate ip_info additional_info"
    using that by (simp add: display_success [OF assms] additional_stmts_def)
  have none: "\<forall>l \<in> set ?out. \<not> is_title_of ''Additional Information'' l"
    if "\<not> additional_gate ip_info additional_info"
    using additional_title_only_if_gate [OF assms that] by blast
  have printed: "l \<in> set ?out"
    if "snd (display_ip_info env ip_info additional_info) = None"
      and "Inr [l] \<in> set (header_stmts env ip_info ?w @ location_stmts env ip_info ?w
                @ additional_stmts env ip_info additional_info ?w
                @ network_stmts env ip_info ?w @ trailer_stmts env ip_info additional_info)" for l
    using printed_when_complete [OF assms that] .
  have title: "title_row env ''Additional Information'' (?w - 23) \<in> set ?out"
    if "snd (display_ip_info env ip_info additional_info) = None"
      and "additional_gate ip_info additional_info"
    by (rule printed [OF that(1)]) (simp add: additional_stmts_def that(2))
  have banner1: "[newline] @ BG_BLUE env @ BOLD env @ spaces ?w @ ENDC env \<in> set ?out"
    if "snd (display_ip_info env ip_info additional_info) = None"
    by (rule printed [OF that]) (simp add: header_stmts_def)
  have banner2: "\<exists>query. subscript ip_info ''query'' = Inr query
                  \<and> BG_BLUE env @ BOLD env @ (''  IP: '' @ py_str env query @ ''  '')
                      @ spaces (?w - int (length (''  IP: '' @ py_str env query @ ''  ''))
                                + int (length (BG_BLUE env @ BOLD env @ ENDC env)))
                      @ ENDC env \<in> set ?out"
    if c: "snd (display_ip_info env ip_info additional_info) = None"
  proof -
    from query_completes [OF assms c] obtain query where q: "subscript ip_info ''query'' = Inr query"
      by blast
    have "BG_BLUE env @ BOLD env @ (''  IP: '' @ py_str env query @ ''  '')
                      @ spaces (?w - int (length (''  IP: '' @ py_str env query @ ''  ''))
                                + int (length (BG_BLUE env @ BOLD env @ ENDC env)))
                      @ ENDC env \<in> set ?out"
      by (rule printed [OF c]) (simp add: header_stmts_def q Let_def)
    with q show ?thesis by blast
  qed
  have banner3: "BG_BLUE env @ BOLD env @ spaces ?w @ ENDC env @ [newline] \<in> set ?out"
    if "snd (display_ip_info env ip_info additional_info) = None"
    by (rule printed [OF that]) (simp add: header_stmts_def)
  have top: "border env box_dr box_dl ?w \<in> set ?out"
    if "snd (display_ip_info env ip_info additional_info) = None"
    by (rule printed [OF that]) (simp add: location_stmts_def)
  have loc: "\<exists>loc. location env ip_info = Inr loc
                  \<and> row env ''Location:'' loc (?w - 11 - int (length loc)) \<in> set ?out"
    if c: "snd (display_ip_info env ip_info additional_info) = None"
  proof -
    from location_completes [OF assms c] obtain loc where l: "location env ip_info = Inr loc"
      by blast
    have "row env ''Location:'' loc (?w - 11 - int (length loc)) \<in> set ?out"
      by (rule printed [OF c]) (simp add: location_stmts_def l text_row_def)
    with l show ?thesis by blast
  qed
  have net: "title_row env ''Network Information'' (?w - 21) \<in> set ?out"
    if "snd (display_ip_info env ip_info additional_info) = None"
    by (rule printed [OF that]) (simp add: network_stmts_def)
  have bottom: "border env box_ur box_ul ?w \<in> set ?out"
    if "snd (display_ip_info env ip_info additional_info) = None"
    by (rule printed [OF that]) (simp add: network_stmts_def)
  from closed none title banner1 banner2 banner3 top loc net bottom show ?thesis by blast
qed

theorem display_ip_info_sections_witness:
  "get example_geo ''status'' = JStr ''success'' \<and> terminal_columns example_env = Inr 84
   \<and> snd (display_ip_info example_env example_geo None) = None
   \<and> additional_gate example_geo None
   \<and> title_row example_env ''Additional Information'' 57
         \<in> set (fst (display_ip_info example_env example_geo None))
   \<and> title_row example_env ''Network Information'' 59
         \<in> set (fst (display_ip_info example_env example_geo None))
   \<and> get [(''status'', JStr ''success''), (''query'', JStr ''8.8.8.8'')] ''status'' = JStr ''success''
   \<and> \<not> additional_gate [(''status'', JStr ''success''), (''query'', JStr ''8.8.8.8'')] None
   \<and> list_all (\<lambda>l. \<not> is_title_of ''Additional Information'' l)
         (fst (display_ip_info example_env
                [(''status'', JStr ''success''), (''query'', JStr ''8.8.8.8'')] None))"
proof -
  have g: "additional_gate example_geo None"
    by (simp add: additional_gate_def example_geo_def get_def get_default_def)
  have s: "get [(''status'', JStr ''success''), (''query'', JStr ''8.8.8.8'')] ''status'' = JStr ''success''"
    by (simp add: get_def get_default_def)
  have n: "\<not> additional_gate [(''status'', JStr ''success''), (''query'', JStr ''8.8.8.8'')] None"
    by (simp add: additional_gate_def add_truthy_def get_def get_default_def)
  have w: "box_width 84 - 23 = 57" "box_width 84 - 21 = 59"
    by (simp_all add: box_width_def)
  from display_ip_info_sections [OF example_geo_success example_env_fields(2), of None]
       example_complete_without g
  have 1: "title_row example_env ''Additional Information'' 57
         \<in> set (fst (display_ip_info example_env example_geo None))"
    and 2: "title_row example_env ''Network Information'' 59
         \<in> set (fst (display_ip_info example_env example_geo None))"
    by (simp_all add: w)
  from display_ip_info_sections [OF s example_env_fields(2), of None] n
  have 3: "list_all (\<lambda>l. \<not> is_title_of ''Additional Information'' l)
         (fst (display_ip_info example_env
                [(''status'', JStr ''success''), (''query'', JStr ''8.8.8.8'')] None))"
    unfolding list_all_iff by blast
  from example_geo_success example_env_fields(2) example_complete_without g 1 2 s n 3
  show ?thesis by blast
qed

text \<open>Claim C5 as stated fails: the example record has no reverse DNS, ISP, organisation,
  AS or AS name and no city, region or country, and the renderer prints the title of the
  network block and the location row all the same.\<close>

theorem display_ip_info_empty_sections_counterexample:
  "list_all (\<lambda>k. \<not> has_key example_geo k)
     [''reverse'', ''isp'', ''org'', ''as'', ''asname'', ''city'', ''regionName'', ''country'']
   \<and> title_row example_env ''Network Information'' 59
         \<in> set (fst (display_ip_info example_env example_geo None))
   \<and> row example_env ''Location:'' [] 69
         \<in> set (fst (display_ip_info example_env example_geo None))"
proof -
  have "list_all (\<lambda>k. \<not> has_key example_geo k)
     [''reverse'', ''isp'', ''org'', ''as'', ''asname'', ''city'', ''regionName'', ''country'']"
    by (simp add: has_key_def example_geo_def)
  moreover have "set (drop 3 (fst (display_ip_info example_env example_geo None)))
                   \<subseteq> set (fst (display_ip_info example_env example_geo None))"
    by (rule set_drop_subset)
  ultimately show ?thesis
    unfolding example_box by simp
qed


section \<open>The currencies in the three renderings\<close>

lemma currency_list_example:
  "currency_list env [(''USD'', JObj [(''name'', JStr ''US Dollar'')]), (''EUR'', JObj [(''name'', JStr ''Euro'')])]
     = [''USD (US Dollar)'', ''EUR (Euro)'']"
  by (simp add: currency_list_def has_key_def get_def get_default_def py_str_def)

lemma enrichment_with_currencies:
  assumes "map_of enrichment ''currencies'' = Some example_currencies"
  shows "add_truthy (Some enrichment)"
    and "get (add_dict (Some enrichment)) ''currencies'' = example_currencies"
    and "truthy example_currencies"
    and "py_items example_currencies
           = Inr [(''USD'', JObj [(''name'', JStr ''US Dollar'')]), (''EUR'', JObj [(''name'', JStr ''Euro'')])]"
  using assms
  by (auto simp: add_truthy_def add_dict_def get_def get_default_def example_currencies_def
        py_items_def)

lemma currencies_stmt_example:
  assumes "map_of enrichment ''currencies'' = Some example_currencies"
    and "fill env ''USD (US Dollar), EUR (Euro)'' (width - 13) = Inr ''USD (US Dollar), EUR (Euro)''"
  shows "currencies_stmt env (Some enrichment) width
           = Inr [row env ''Currencies:'' ''USD (US Dollar), EUR (Euro)'' (width - 13 - 27)]"
proof -
  have j: "join_with '', '' [''USD (US Dollar)'', ''EUR (Euro)''] = ''USD (US Dollar), EUR (Euro)''"
    by simp
  have sp: "split_on newline ''USD (US Dollar), EUR (Euro)'' = [''USD (US Dollar), EUR (Euro)'']"
    by (simp add: newline_def)
  show ?thesis
    unfolding currencies_stmt_def
    by (simp only: enrichment_with_currencies [OF assms(1)] when_stmt_def simp_thms if_True
          sum.case currency_list_example j assms(2) wrapped_rows_def sp list.case list.map)
       simp
qed

lemma currencies_row_printed:
  assumes "get ip_info ''status'' = JStr ''success''" and "terminal_columns env = Inr columns"
    and "snd (display_ip_info env ip_info (Some enrichment)) = None"
    and "map_of enrichment ''currencies'' = Some example_currencies"
    and "fill env ''USD (US Dollar), EUR (Euro)'' (box_width columns - 13)
           = Inr ''USD (US Dollar), EUR (Euro)''"
  shows "row env ''Currencies:'' ''USD (US Dollar), EUR (Euro)'' (box_width columns - 13 - 27)
           \<in> set (fst (display_ip_info env ip_info (Some enrichment)))"
proof -
  have g: "additional_gate ip_info (Some enrichment)"
    by (simp add: additional_gate_def enrichment_with_currencies(1) [OF assms(4)])
  have "currencies_stmt env (Some enrichment) (box_width columns)
          \<in> set (additional_stmts env ip_info (Some enrichment) (box_width columns))"
    by (simp add: additional_stmts_def g)
  then have "Inr [row env ''Currencies:'' ''USD (US Dollar), EUR (Euro)'' (box_width columns - 13 - 27)]
          \<in> set (additional_stmts env ip_info (Some enrichment) (box_width columns))"
    by (simp only: currencies_stmt_example [OF assms(4,5)])
  then show ?thesis
    by (intro printed_when_complete [OF assms(1,2,3)]) simp
qed

lemma contains_self: "contains (sub @ rest) sub"
  by (cases "sub @ rest") (use is_prefix_append [of sub rest] in auto)

lemma contains_skip: "contains b sub \<Longrightarrow> contains (a @ b) sub"
  by (induction a) auto

lemma is_prefix_longer: "is_prefix sub a \<Longrightarrow> is_prefix sub (a @ b)"
  by (induction sub a rule: is_prefix.induct) auto

lemma contains_here: "contains a sub \<Longrightarrow> contains (a @ b) sub"
proof (induction a)
  case Nil
  then show ?case by (cases b) auto
next
  case (Cons c a)
  from Cons show ?case
    using is_prefix_longer [of sub "c # a" b] by auto
qed

lemma bind_err_Inr: "bind_err (Inr x) f = f x"
  by (simp add: bind_err_def)

lemma bind_err_result: "bind_err r f = Inr y \<Longrightarrow> \<exists>x. r = Inr x \<and> f x = Inr y"
  by (cases r) (simp_all add: bind_err_def)

lemma additional_rows_currencies:
  assumes "map_of enrichment ''currencies'' = Some example_currencies"
    and "additional_rows env (Some enrichment) = Inr rows"
  shows "\<exists>before after.
           rows = before @ table_row ''            '' ''Currencies'' ''USD (US Dollar), EUR (Euro)'' @ after"
proof -
  note e = enrichment_with_currencies [OF assms(1)]
  have j: "join_with '', '' [''USD (US Dollar)'', ''EUR (Euro)''] = ''USD (US Dollar), EUR (Euro)''"
    by simp
  have c: "(if truthy (get (add_dict (Some enrichment)) ''currencies'')
           then bind_err (py_items (get (add_dict (Some enrichment)) ''currencies''))
                  (\<lambda>items. Inr (table_row ''            '' ''Currencies''
                                    (join_with '', '' (currency_list env items))))
           else Inr [])
        = Inr (table_row ''            '' ''Currencies'' ''USD (US Dollar), EUR (Euro)'')"
    by (simp only: e if_True bind_err_Inr currency_list_example j)
  from assms(2) have "bind_err
          (if truthy (get (add_dict (Some enrichment)) ''population'')
           then bind_err (format_commas env (get (add_dict (Some enrichment)) ''population''))
                  (\<lambda>population. Inr (table_row ''            '' ''Population'' population))
           else Inr [])
          (\<lambda>population_row.
        bind_err
          (if truthy (get (add_dict (Some enrichment)) ''languages'')
           then bind_err (py_items (get (add_dict (Some enrichment)) ''languages''))
                  (\<lambda>items. Inr (table_row ''            '' ''Languages''
                                    (join_with '', '' (lang_list env items))))
           else Inr [])
          (\<lambda>languages_row.
             Inr (population_row
                  @ (if truthy (get (add_dict (Some enrichment)) ''capital'')
                     then table_row ''            '' ''Capital''
                            (py_str env (get (add_dict (Some enrichment)) ''capital''))
                     else [])
                  @ table_row ''            '' ''Currencies'' ''USD (US Dollar), EUR (Euro)''
                  @ languages_row))) = Inr rows"
    unfolding additional_rows_def c by (simp only: e if_True bind_err_Inr)
  from bind_err_result [OF this] obtain population_row where
    "bind_err
          (if truthy (get (add_dict (Some enrichment)) ''languages'')
           then bind_err (py_items (get (add_dict (Some enrichment)) ''languages''))
                  (\<lambda>items. Inr (table_row ''            '' ''Languages''
                                    (join_with '', '' (lang_list env items))))
           else Inr [])
          (\<lambda>languages_row.
             Inr (population_row
                  @ (if truthy (get (add_dict (Some enrichment)) ''capital'')
                     then table_row ''            '' ''Capital''
                            (py_str env (get (add_dict (Some enrichment)) ''capital''))
                     else [])
                  @ table_row ''            '' ''Currencies'' ''USD (US Dollar), EUR (Euro)''
                  @ languages_row)) = Inr rows"
    by blast
  from bind_err_result [OF this] obtain languages_row where
    "rows = (population_row
                  @ (if truthy (get (add_dict (Some enrichment)) ''capital'')
                     then table_row ''            '' ''Capital''
                            (py_str env (get (add_dict (Some enrichment)) ''capital''))
                     else []))
                  @ table_row ''            '' ''Currencies'' ''USD (US Dollar), EUR (Euro)''
                  @ languages_row"
    by auto
  then show ?thesis by blast
qed

lemma table_row_not_empty: "table_row indent label body \<noteq> []"
  by (simp add: table_row_def)

lemma additional_html_contains:
  assumes "rows = before @ sub @ after" and "sub \<noteq> []"
  shows "contains (additional_html rows) sub"
proof -
  from assms have ne: "rows \<noteq> []" by simp
  have "contains rows sub"
    unfolding assms(1) by (rule contains_skip, rule contains_self)
  then show ?thesis
    unfolding additional_html_def
    by (simp only: ne if_True not_False_eq_True) (rule contains_skip, rule contains_here)
qed

lemma html_page_contains:
  assumes "contains additional sub"
  shows "contains (html_page env ip_info info additional flag map_part) sub"
  unfolding html_page_def
  by (rule contains_skip, rule contains_skip, rule contains_skip, rule contains_skip,
      rule contains_skip, rule contains_skip, rule contains_skip, rule contains_skip,
      rule contains_skip, rule contains_here, rule assms)

lemma export_to_html_currencies:
  assumes "map_of enrichment ''currencies'' = Some example_currencies"
    and "export_to_html env ip_info (Some enrichment) = Inr html"
  shows "contains html (table_row ''            '' ''Currencies'' ''USD (US Dollar), EUR (Euro)'')"
proof -
  from assms(2) obtain rows info where
    r: "additional_rows env (Some enrichment) = Inr rows" and
    h: "html = html_page env ip_info info (additional_html rows)
                 (flag_html env (Some enrichment)) (map_html env ip_info)"
    by (auto simp: export_to_html_def bind_err_def split: sum.splits)
  from additional_rows_currencies [OF assms(1) r] obtain before after where
    "rows = before @ table_row ''            '' ''Currencies'' ''USD (US Dollar), EUR (Euro)'' @ after"
    by blast
  from additional_html_contains [OF this table_row_not_empty] show ?thesis
    unfolding h by (rule html_page_contains)
qed

lemma flat_value_example:
  "flat_value [(''USD'', JObj [(''name'', JStr ''US Dollar'')]), (''EUR'', JObj [(''name'', JStr ''Euro'')])]
     = ''USD, EUR''"
  by (simp add: flat_value_def)

lemma csv_columns:
  "zip (export_to_csv env ip_info additional_info ! 0) (export_to_csv env ip_info additional_info ! 1)
     = map (\<lambda>(k, v). (k, csv_cell env v)) (flat_data env ip_info additional_info)"
  by (simp add: export_to_csv_def zip_map_map zip_same_conv_map split_beta)

lemma csv_currencies_cell:
  assumes "geo_record ip_info" and "distinct (map fst enrichment)"
    and "map_of enrichment ''currencies'' = Some example_currencies"
  shows "(''additional_currencies'', ''USD, EUR'')
           \<in> set (zip (export_to_csv env ip_info (Some enrichment) ! 0)
                        (export_to_csv env ip_info (Some enrichment) ! 1))"
proof -
  from assms(3) have m: "(''currencies'', example_currencies) \<in> set enrichment"
    by (rule map_of_SomeD)
  have d: "distinct (map fst (add_dict (Some enrichment)))"
    using assms(2) by (simp add: add_dict_def)
  let ?cell = "\<lambda>(k, v). (''additional_'' @ k,
                              case v of JObj kvs \<Rightarrow> JStr (flat_value kvs) | _ \<Rightarrow> v)"
  from m have "?cell (''currencies'', example_currencies) \<in> set (map ?cell enrichment)"
    unfolding set_map by (rule imageI)
  then have "(''additional_currencies'', JStr ''USD, EUR'') \<in> set (map ?cell enrichment)"
    by (simp add: example_currencies_def flat_value_example)
  then have "(''additional_currencies'', JStr ''USD, EUR'')
               \<in> set (flat_data env ip_info (Some enrichment))"
    by (simp add: flat_data_appends [OF assms(1) d] add_dict_def)
  then have "(\<lambda>(k, v). (k, csv_cell env v)) (''additional_currencies'', JStr ''USD, EUR'')
               \<in> set (map (\<lambda>(k, v). (k, csv_cell env v)) (flat_data env ip_info (Some enrichment)))"
    unfolding set_map by (rule imageI)
  then have "(''additional_currencies'', ''USD, EUR'')
               \<in> set (map (\<lambda>(k, v). (k, csv_cell env v)) (flat_data env ip_info (Some enrichment)))"
    by (simp add: csv_cell_def py_str_def)
  then show ?thesis
    by (simp only: csv_columns)
qed

lemma example_enrichment_currencies: "map_of example_enrichment ''currencies'' = Some example_currencies"
  by (simp add: example_enrichment_def)

lemma example_fill:
  "fill example_env body width = Inr body"
  by (simp add: example_env_def unwrapped_def)

lemma example_complete_with:
  "snd (display_ip_info example_env example_geo (Some example_enrichment)) = None"
proof -
  from ex_header obtain h1 h2 h3 where
    h: "header_stmts example_env example_geo 80 = [Inr [h1], Inr [h2], Inr [h3]]" by blast
  have w: "box_width 84 = 80" by (simp add: box_width_def)
  have a: "list_all (\<lambda>s. \<not> isl s)
             (additional_stmts example_env example_geo (Some example_enrichment) 80)"
    by (simp add: additional_stmts_def additional_gate_def add_truthy_def add_dict_def
          example_enrichment_def example_currencies_def example_geo_def get_def get_default_def
          when_stmt_def text_row_def raw_row_def py_len_def format_commas_def currencies_stmt_def
          languages_stmt_def py_items_def example_fill wrapped_rows_def currency_list_def
          lang_list_def has_key_def py_str_def newline_def)
  have t: "list_all (\<lambda>s. \<not> isl s)
             (trailer_stmts example_env example_geo (Some example_enrichment))"
    by (simp add: trailer_stmts_def when_stmt_def)
  show ?thesis
    unfolding display_success [OF example_geo_success example_env_fields(2)] w
    by (rule run_stmts_all_printed) (simp add: h ex_location ex_network a t)
qed

lemma example_html:
  "\<not> isl (export_to_html example_env example_geo (Some example_enrichment))"
  by (simp add: export_to_html_def bind_err_def additional_rows_def info_rows_def location_def
        location_parts_def py_join_def add_truthy_def add_dict_def example_enrichment_def
        example_currencies_def example_geo_def get_def get_default_def format_commas_def
        py_items_def)

text \<open>
  Claim C3, as the code has it, for an enrichment whose currencies are
  \<^verbatim>\<open>{"USD": {"name": "US Dollar"}, "EUR": {"name": "Euro"}}\<close>. The terminal renderer,
  when it completes and \<^verbatim>\<open>textwrap.fill\<close> leaves the text on one line, prints the row
  \<^verbatim>\<open>Currencies: USD (US Dollar), EUR (Euro)\<close>. The HTML exporter writes the table row
  \<^verbatim>\<open>Currencies\<close> with the text \<^verbatim>\<open>USD (US Dollar), EUR (Euro)\<close>. The CSV exporter, for a
  GeoRecord, writes the column \<^verbatim>\<open>additional_currencies\<close> with the cell \<^verbatim>\<open>USD, EUR\<close>: the
  codes without the names. All three keep the order of the mapping.
\<close>

theorem currencies_rendering:
  assumes "map_of enrichment ''currencies'' = Some example_currencies"
  shows "(get ip_info ''status'' = JStr ''success'' \<and> terminal_columns env = Inr columns
          \<and> snd (display_ip_info env ip_info (Some enrichment)) = None
          \<and> fill env ''USD (US Dollar), EUR (Euro)'' (box_width columns - 13)
              = Inr ''USD (US Dollar), EUR (Euro)''
        \<longrightarrow> row env ''Currencies:'' ''USD (US Dollar), EUR (Euro)'' (box_width columns - 13 - 27)
              \<in> set (fst (display_ip_info env ip_info (Some enrichment))))
   \<and> (\<forall>html. export_to_html env ip_info (Some enrichment) = Inr html
          \<longrightarrow> contains html
                (table_row ''            '' ''Currencies'' ''USD (US Dollar), EUR (Euro)''))
   \<and> (geo_record ip_info \<and> distinct (map fst enrichment)
        \<longrightarrow> (''additional_currencies'', ''USD, EUR'')
              \<in> set (zip (export_to_csv env ip_info (Some enrichment) ! 0)
                           (export_to_csv env ip_info (Some enrichment) ! 1)))"
proof -
  have terminal: "row env ''Currencies:'' ''USD (US Dollar), EUR (Euro)'' (box_width columns - 13 - 27)
              \<in> set (fst (display_ip_info env ip_info (Some enrichment)))"
    if "get ip_info ''status'' = JStr ''success'' \<and> terminal_columns env = Inr columns
          \<and> snd (display_ip_info env ip_info (Some enrichment)) = None
          \<and> fill env ''USD (US Dollar), EUR (Euro)'' (box_width columns - 13)
              = Inr ''USD (US Dollar), EUR (Euro)''"
    using that currencies_row_printed [of ip_info env columns enrichment] assms by blast
  have html: "contains html
                (table_row ''            '' ''Currencies'' ''USD (US Dollar), EUR (Euro)'')"
    if "export_to_html env ip_info (Some enrichment) = Inr html" for html
    using export_to_html_currencies [OF assms that] .
  have csv: "(''additional_currencies'', ''USD, EUR'')
              \<in> set (zip (export_to_csv env ip_info (Some enrichment) ! 0)
                           (export_to_csv env ip_info (Some enrichment) ! 1))"
    if "geo_record ip_info \<and> distinct (map fst enrichment)"
    using that csv_currencies_cell [of ip_info enrichment env] assms by blast
  from terminal html csv show ?thesis by blast
qed

theorem currencies_rendering_witness:
  "map_of example_enrichment ''currencies'' = Some example_currencies
   \<and> get example_geo ''status'' = JStr ''success'' \<and> terminal_columns example_env = Inr 84
   \<and> snd (display_ip_info example_env example_geo (Some example_enrichment)) = None
   \<and> fill example_env ''USD (US Dollar), EUR (Euro)'' (box_width 84 - 13)
       = Inr ''USD (US Dollar), EUR (Euro)''
   \<and> row example_env ''Currencies:'' ''USD (US Dollar), EUR (Euro)'' 40
       \<in> set (fst (display_ip_info example_env example_geo (Some example_enrichment)))
   \<and> \<not> isl (export_to_html example_env example_geo (Some example_enrichment))
   \<and> contains (projr (export_to_html example_env example_geo (Some example_enrichment)))
       (table_row ''            '' ''Currencies'' ''USD (US Dollar), EUR (Euro)'')
   \<and> geo_record example_geo \<and> distinct (map fst example_enrichment)
   \<and> (''additional_currencies'', ''USD, EUR'')
       \<in> set (zip (export_to_csv example_env example_geo (Some example_enrichment) ! 0)
                    (export_to_csv example_env example_geo (Some example_enrichment) ! 1))"
proof -
  note c = currencies_rendering [OF example_enrichment_currencies, of example_geo example_env 84]
  have d: "distinct (map fst example_enrichment)"
    by (simp add: example_enrichment_def)
  have w: "box_width 84 - 13 - 27 = 40" by (simp add: box_width_def)
  from example_html obtain html where
    h: "export_to_html example_env example_geo (Some example_enrichment) = Inr html"
    by (cases "export_to_html example_env example_geo (Some example_enrichment)") auto
  from c example_geo_success example_env_fields(2) example_complete_with example_fill
  have 1: "row example_env ''Currencies:'' ''USD (US Dollar), EUR (Euro)'' 40
       \<in> set (fst (display_ip_info example_env example_geo (Some example_enrichment)))"
    by (simp add: w)
  from c h have 2: "contains (projr (export_to_html example_env example_geo (Some example_enrichment)))
       (table_row ''            '' ''Currencies'' ''USD (US Dollar), EUR (Euro)'')"
    by simp
  from c example_geo_record d
  have 3: "(''additional_currencies'', ''USD, EUR'')
       \<in> set (zip (export_to_csv example_env example_geo (Some example_enrichment) ! 0)
                    (export_to_csv example_env example_geo (Some example_enrichment) ! 1))"
    by blast
  from example_enrichment_currencies example_geo_success example_env_fields(2)
       example_complete_with example_fill example_html example_geo_record d 1 2 3
  show ?thesis by simp
qed

text \<open>Claim C3 as stated fails for the CSV exporter: at the example its cell of the
  currencies is \<^verbatim>\<open>USD, EUR\<close>, not \<^verbatim>\<open>USD (US Dollar), EUR (Euro)\<close>.\<close>

theorem export_to_csv_currency_names_counterexample:
  "map_of (zip (export_to_csv example_env example_geo (Some example_enrichment) ! 0)
               (export_to_csv example_env example_geo (Some example_enrichment) ! 1))
     ''additional_currencies'' = Some ''USD, EUR''
   \<and> ''USD, EUR'' \<noteq> ''USD (US Dollar), EUR (Euro)''"
  unfolding csv_columns
  by (simp add: flat_data_def add_truthy_def add_dict_def example_enrichment_def
        example_geo_def example_currencies_def flat_value_def csv_cell_def py_str_def)

end
